theory Spec2Isabelle
  imports Complex_Main "HOL-Library.Sublist"
begin

section \<open>Python values used by the document validator\<close>

text \<open>
  A Python \<open>str\<close> is modelled as a \<open>string\<close>: each \<open>char\<close> stands for the code point of
  the same number, so the model covers the strings whose code points are below 256.
  On that range \<open>str.isspace\<close>, \<open>str.lower\<close> and the regular-expression class
  \<open>\d\<close> are the tables written out below.
\<close>

definition code_point :: "char \<Rightarrow> nat" where
  "code_point c = of_char c"

definition isspace :: "char \<Rightarrow> bool" where
  "isspace c =
     (let n = code_point c
      in (9 \<le> n \<and> n \<le> 13) \<or> (28 \<le> n \<and> n \<le> 32) \<or> n = 133 \<or> n = 160)"

text \<open>\<open>s.strip()\<close>: leading and trailing whitespace removed.\<close>

definition strip :: "string \<Rightarrow> string" where
  "strip s = rev (dropWhile isspace (rev (dropWhile isspace s)))"

definition lower_char :: "char \<Rightarrow> char" where
  "lower_char c =
     (let n = code_point c
      in if (65 \<le> n \<and> n \<le> 90) \<or> (192 \<le> n \<and> n \<le> 222 \<and> n \<noteq> 215)
         then char_of (n + 32) else c)"

text \<open>\<open>s.lower()\<close>.\<close>

definition lower :: "string \<Rightarrow> string" where
  "lower s = map lower_char s"

text \<open>
  A Python \<open>float\<close> by its exact value: a finite double is the rational it denotes,
  with \<open>Finite 0\<close> for \<open>0.0\<close> and \<open>NegZero\<close> for \<open>-0.0\<close>, beside the two infinities
  and NaN. \<open>gt_zero v\<close> is the comparison \<open>v > 0\<close>, and \<open>is_finite\<close> is
  \<open>math.isfinite\<close>.
\<close>

datatype pyfloat = Finite rat | NegZero | PosInf | NegInf | NaN

fun gt_zero :: "pyfloat \<Rightarrow> bool" where
  "gt_zero (Finite r) = (0 < r)"
| "gt_zero NegZero = False"
| "gt_zero PosInf = True"
| "gt_zero NegInf = False"
| "gt_zero NaN = False"

fun is_finite :: "pyfloat \<Rightarrow> bool" where
  "is_finite (Finite r) = True"
| "is_finite NegZero = True"
| "is_finite PosInf = False"
| "is_finite NegInf = False"
| "is_finite NaN = False"

subsection \<open>Exceptions\<close>

text \<open>
  An exception is its class and the text \<open>str(e)\<close> gives. \<open>JSONDecodeError\<close> and
  pydantic's \<open>ValidationError\<close> are subclasses of \<open>ValueError\<close>; every class here is a
  subclass of \<open>Exception\<close>.
\<close>

datatype exn_class = ValueError | JSONDecodeError | ValidationError | TypeError | OtherException

datatype exn = Exn (cls: exn_class) (msg: string)

fun is_ValueError :: "exn \<Rightarrow> bool" where
  "is_ValueError (Exn c m) = (c = ValueError \<or> c = JSONDecodeError \<or> c = ValidationError)"

text \<open>A value as \<open>json.loads\<close> returns it; the keys of a \<open>dict\<close> are distinct.\<close>

datatype json =
    JNull | JBool bool | JInt int | JFloat pyfloat | JStr string
  | JList "json list" | JDict "(string \<times> json) list"

text \<open>
  What an exception raised inside a library reports; the wording of its message belongs
  to the library and is read through \<open>str_error\<close> below.
\<close>

datatype field_error = WrongType json | ValidatorRaised string

datatype lib_error =
    NoMatch string
  | UnconvertedData string
  | DateOutOfRange nat nat nat
  | ConstraintViolated string string
  | FieldErrors "(string \<times> field_error) list"
  | NotAMapping json

text \<open>
  The behaviour of the libraries the program calls, taken as given:
  how a float, a library error and a \<open>pathlib.Path\<close> made from a file name are rendered
  as text, \<open>json.loads\<close>, and pydantic's conversion of a parsed value to a \<open>float\<close>
  field (\<open>None\<close> when it refuses the value).
\<close>

record runtime =
  str_float :: "pyfloat \<Rightarrow> string"
  str_error :: "lib_error \<Rightarrow> string"
  str_path :: "string \<Rightarrow> string"
  json_loads :: "string \<Rightarrow> exn + json"
  to_float :: "json \<Rightarrow> pyfloat option"

subsection \<open>\<open>datetime.strptime(s, "%Y-%m-%d")\<close>\<close>

text \<open>
  \<open>strptime\<close> turns the format into the regular expression
  \<open>(?P<Y>\d\d\d\d)-(?P<m>1[0-2]|0[1-9]|[1-9])-(?P<d>3[0-1]|[1-2]\d|0[1-9]|[1-9]| [1-9])\<close>,
  matches it at the start of the string, refuses a string with text left after the match,
  and builds the date, which refuses a year 0 and a day the month does not have.
\<close>

definition is_digit :: "char \<Rightarrow> bool" where
  "is_digit c = (48 \<le> code_point c \<and> code_point c \<le> 57)"

definition digit_value :: "char \<Rightarrow> nat" where
  "digit_value c = code_point c - 48"

text \<open>The character class \<open>[lo-hi]\<close>.\<close>

definition in_class :: "char \<Rightarrow> char \<Rightarrow> char \<Rightarrow> bool" where
  "in_class lo hi c = (code_point lo \<le> code_point c \<and> code_point c \<le> code_point hi)"

text \<open>\<open>int(t)\<close> on the text of a group: decimal digits, after a space at most.\<close>

definition int_of :: "string \<Rightarrow> nat" where
  "int_of t = foldl (\<lambda>n c. 10 * n + digit_value c) 0 (dropWhile isspace t)"

fun match_Y :: "string \<Rightarrow> (nat \<times> string) option" where
  "match_Y (a # b # c # d # rest) =
     (if is_digit a \<and> is_digit b \<and> is_digit c \<and> is_digit d
      then Some (int_of [a, b, c, d], rest)
      else None)"
| "match_Y _ = None"

fun match_hyphen :: "string \<Rightarrow> string option" where
  "match_hyphen (a # rest) = (if a = CHR ''-'' then Some rest else None)"
| "match_hyphen [] = None"

text \<open>
  A group of alternatives gives every alternative that matches, in the order the regular
  expression tries them, each with its value and the text after it.
\<close>

fun two_chars :: "(char \<Rightarrow> bool) \<Rightarrow> (char \<Rightarrow> bool) \<Rightarrow> string \<Rightarrow> (nat \<times> string) list" where
  "two_chars p q (a # b # rest) =
     (if p a \<and> q b then [(int_of [a, b], rest)] else [])"
| "two_chars p q _ = []"

fun one_char :: "(char \<Rightarrow> bool) \<Rightarrow> string \<Rightarrow> (nat \<times> string) list" where
  "one_char p (a # rest) = (if p a then [(int_of [a], rest)] else [])"
| "one_char p [] = []"

definition match_m :: "string \<Rightarrow> (nat \<times> string) list" where
  "match_m s =
     two_chars (\<lambda>c. c = CHR ''1'') (in_class CHR ''0'' CHR ''2'') s
     @ two_chars (\<lambda>c. c = CHR ''0'') (in_class CHR ''1'' CHR ''9'') s
     @ one_char (in_class CHR ''1'' CHR ''9'') s"

definition match_d :: "string \<Rightarrow> (nat \<times> string) list" where
  "match_d s =
     two_chars (\<lambda>c. c = CHR ''3'') (in_class CHR ''0'' CHR ''1'') s
     @ two_chars (in_class CHR ''1'' CHR ''2'') is_digit s
     @ two_chars (\<lambda>c. c = CHR ''0'') (in_class CHR ''1'' CHR ''9'') s
     @ one_char (in_class CHR ''1'' CHR ''9'') s
     @ two_chars (\<lambda>c. c = CHR '' '') (in_class CHR ''1'' CHR ''9'') s"

text \<open>
  The first way the whole expression matches: year, month, day and the text left over.
\<close>

definition regex_match :: "string \<Rightarrow> (nat \<times> nat \<times> nat \<times> string) option" where
  "regex_match s =
     (case match_Y s of
        None \<Rightarrow> None
      | Some (y, s1) \<Rightarrow>
          (case match_hyphen s1 of
             None \<Rightarrow> None
           | Some s2 \<Rightarrow>
               (case concat (map (\<lambda>(m, s3).
                             case match_hyphen s3 of
                               None \<Rightarrow> []
                             | Some s4 \<Rightarrow> map (\<lambda>(d, rest). (y, m, d, rest)) (match_d s4))
                           (match_m s2)) of
                  [] \<Rightarrow> None
                | found # _ \<Rightarrow> Some found)))"

definition is_leap :: "nat \<Rightarrow> bool" where
  "is_leap y = (y mod 4 = 0 \<and> (y mod 100 \<noteq> 0 \<or> y mod 400 = 0))"

definition days_in_month :: "nat \<Rightarrow> nat \<Rightarrow> nat" where
  "days_in_month y m =
     (if m = 2 then (if is_leap y then 29 else 28)
      else if m = 4 \<or> m = 6 \<or> m = 9 \<or> m = 11 then 30 else 31)"

text \<open>The \<open>datetime\<close> that \<open>strptime\<close> returns has its time of day at zero.\<close>

record datetime =
  year :: nat
  month :: nat
  day :: nat

text \<open>
  \<open>parse_date\<close> is \<open>strptime\<close> before the text of its error is made: the
  \<open>datetime\<close>, or why there is none.
\<close>

definition parse_date :: "string \<Rightarrow> lib_error + datetime" where
  "parse_date s =
     (case regex_match s of
        None \<Rightarrow> Inl (NoMatch s)
      | Some (y, m, d, rest) \<Rightarrow>
          if rest \<noteq> [] then Inl (UnconvertedData rest)
          else if 1 \<le> y \<and> y \<le> 9999 \<and> 1 \<le> m \<and> m \<le> 12 \<and> 1 \<le> d \<and> d \<le> days_in_month y m
          then Inr \<lparr>year = y, month = m, day = d\<rparr>
          else Inl (DateOutOfRange y m d))"

definition strptime :: "runtime \<Rightarrow> string \<Rightarrow> exn + datetime" where
  "strptime rt s =
     (case parse_date s of
        Inl e \<Rightarrow> Inl (Exn ValueError (str_error rt e))
      | Inr parsed \<Rightarrow> Inr parsed)"

text \<open>\<open>a > b\<close> on two such values compares year, then month, then day.\<close>

definition datetime_gt :: "datetime \<Rightarrow> datetime \<Rightarrow> bool" where
  "datetime_gt a b =
     (year a > year b
      \<or> (year a = year b \<and> (month a > month b \<or> (month a = month b \<and> day a > day b))))"

text \<open>
  The day number of a date counts the days from 1 January of the year 1: the days of the
  years before its year, the days of the months before its month, and its day of the
  month. A date is later than another when its day number is greater. \<open>valid_date\<close>
  holds of the dates that exist.
\<close>

definition days_in_year :: "nat \<Rightarrow> nat" where
  "days_in_year y = (if is_leap y then 366 else 365)"

definition day_number :: "datetime \<Rightarrow> nat" where
  "day_number a =
     sum_list (map days_in_year [1..<year a])
     + sum_list (map (days_in_month (year a)) [1..<month a])
     + day a"

definition valid_date :: "datetime \<Rightarrow> bool" where
  "valid_date a =
     (1 \<le> year a \<and> 1 \<le> month a \<and> month a \<le> 12
      \<and> 1 \<le> day a \<and> day a \<le> days_in_month (year a) (month a))"

section \<open>models.py\<close>

record ExtractedData =
  policy_number :: "string option"
  vessel_name :: "string option"
  policy_start_date :: "string option"
  policy_end_date :: "string option"
  insured_value :: "pyfloat option"

record ValidationResult =
  rule :: string
  status :: string
  message :: string

text \<open>
  \<open>ValidationResult(rule=r, status=s, message=m)\<close>: the field \<open>status\<close> carries the
  pattern \<open>^(PASS|FAIL)$\<close>, and a value outside it raises a \<open>ValidationError\<close>.
\<close>

definition ValidationResult_init ::
  "runtime \<Rightarrow> string \<Rightarrow> string \<Rightarrow> string \<Rightarrow> exn + ValidationResult" where
  "ValidationResult_init rt r s m =
     (if s = ''PASS'' \<or> s = ''FAIL''
      then Inr \<lparr>rule = r, status = s, message = m\<rparr>
      else Inl (Exn ValidationError (str_error rt (ConstraintViolated ''status'' s))))"

text \<open>
  The field validators of \<open>ExtractedData\<close>. They run after pydantic has converted the
  value to the declared type, so \<open>validate_insured_value\<close> always finds a number.
\<close>

definition ExtractedData_validate_date_format :: "runtime \<Rightarrow> string option \<Rightarrow> exn + string option" where
  "ExtractedData_validate_date_format rt v =
     (case v of
        None \<Rightarrow> Inr None
      | Some s \<Rightarrow>
          (case strptime rt s of
             Inr parsed \<Rightarrow> Inr (Some s)
           | Inl x \<Rightarrow>
               if is_ValueError x
               then Inl (Exn ValueError (''Date must be in YYYY-MM-DD format, got: '' @ s))
               else Inl x))"

definition ExtractedData_validate_insured_value :: "pyfloat option \<Rightarrow> exn + pyfloat option" where
  "ExtractedData_validate_insured_value v = (case v of None \<Rightarrow> Inr None | Some f \<Rightarrow> Inr (Some f))"

text \<open>
  What pydantic does with the value found under a key (\<open>None\<close>: no such key) for a field
  declared \<open>Optional[str] = None\<close> or \<open>Optional[float] = None\<close>: a missing key and
  \<open>null\<close> give \<open>None\<close>, a value of the type is taken, anything else is an error of
  that field. A validator that raises makes an error of its field as well (the two
  validators raise nothing but \<open>ValueError\<close>, which pydantic collects in this way).
\<close>

fun str_field :: "json option \<Rightarrow> field_error + string option" where
  "str_field None = Inr None"
| "str_field (Some JNull) = Inr None"
| "str_field (Some (JStr s)) = Inr (Some s)"
| "str_field (Some v) = Inl (WrongType v)"

fun float_field :: "runtime \<Rightarrow> json option \<Rightarrow> field_error + pyfloat option" where
  "float_field rt None = Inr None"
| "float_field rt (Some JNull) = Inr None"
| "float_field rt (Some v) =
     (case to_float rt v of None \<Rightarrow> Inl (WrongType v) | Some f \<Rightarrow> Inr (Some f))"

definition field_validator ::
  "('a \<Rightarrow> exn + 'a) \<Rightarrow> field_error + 'a \<Rightarrow> field_error + 'a" where
  "field_validator f r =
     (case r of
        Inl e \<Rightarrow> Inl e
      | Inr v \<Rightarrow> (case f v of Inl x \<Rightarrow> Inl (ValidatorRaised (msg x)) | Inr v' \<Rightarrow> Inr v'))"

definition errors_of :: "string \<Rightarrow> field_error + 'a \<Rightarrow> (string \<times> field_error) list" where
  "errors_of name r = (case r of Inl e \<Rightarrow> [(name, e)] | Inr v \<Rightarrow> [])"

text \<open>
  \<open>ExtractedData(**obj)\<close>: \<open>**\<close> wants a \<open>dict\<close>; the instance exists when no field
  has an error, and all the errors of the fields are raised together otherwise.
\<close>

definition ExtractedData_init :: "runtime \<Rightarrow> json \<Rightarrow> exn + ExtractedData" where
  "ExtractedData_init rt obj =
     (case obj of
        JDict kvs \<Rightarrow>
          (let pn = str_field (map_of kvs ''policy_number'');
               vn = str_field (map_of kvs ''vessel_name'');
               sd = field_validator (ExtractedData_validate_date_format rt)
                      (str_field (map_of kvs ''policy_start_date''));
               ed = field_validator (ExtractedData_validate_date_format rt)
                      (str_field (map_of kvs ''policy_end_date''));
               iv = field_validator ExtractedData_validate_insured_value
                      (float_field rt (map_of kvs ''insured_value''))
           in case (pn, vn, sd, ed, iv) of
                (Inr a, Inr b, Inr c, Inr d, Inr e) \<Rightarrow>
                  Inr \<lparr>policy_number = a, vessel_name = b, policy_start_date = c,
                       policy_end_date = d, insured_value = e\<rparr>
              | _ \<Rightarrow>
                  Inl (Exn ValidationError
                         (str_error rt
                            (FieldErrors
                               (errors_of ''policy_number'' pn @ errors_of ''vessel_name'' vn
                                @ errors_of ''policy_start_date'' sd
                                @ errors_of ''policy_end_date'' ed
                                @ errors_of ''insured_value'' iv)))))
      | _ \<Rightarrow> Inl (Exn TypeError (str_error rt (NotAMapping obj))))"

text \<open>
  \<open>model_dump_json\<close> as \<open>json.loads\<close> reads it back. Pydantic writes every field
  under its name: \<open>None\<close> as \<open>null\<close>, a string as a JSON string, a finite float as
  the number that reads back as that float, and an infinity or NaN as \<open>null\<close> (its
  default, \<open>ser_json_inf_nan = 'null'\<close>).
\<close>

fun str_json :: "string option \<Rightarrow> json" where
  "str_json None = JNull"
| "str_json (Some s) = JStr s"

fun float_json :: "pyfloat option \<Rightarrow> json" where
  "float_json None = JNull"
| "float_json (Some f) = (if is_finite f then JFloat f else JNull)"

definition model_dump_json :: "ExtractedData \<Rightarrow> json" where
  "model_dump_json data =
     JDict [(''policy_number'', str_json (policy_number data)),
            (''vessel_name'', str_json (vessel_name data)),
            (''policy_start_date'', str_json (policy_start_date data)),
            (''policy_end_date'', str_json (policy_end_date data)),
            (''insured_value'', float_json (insured_value data))]"

text \<open>
  \<open>DocumentRequest(text=t)\<close>: the field \<open>text\<close>, here \<open>request_text\<close>, has
  \<open>min_length=1\<close>.
\<close>

record DocumentRequest =
  request_text :: string

definition DocumentRequest_init :: "runtime \<Rightarrow> string \<Rightarrow> exn + DocumentRequest" where
  "DocumentRequest_init rt t =
     (if 1 \<le> length t then Inr \<lparr>request_text = t\<rparr>
      else Inl (Exn ValidationError (str_error rt (ConstraintViolated ''text'' t))))"

record ValidationResponse =
  extracted_data :: ExtractedData
  validation_results :: "ValidationResult list"

section \<open>validation.py\<close>

record DocumentValidator =
  valid_vessels :: "string set"

text \<open>
  The methods \<open>_validate_date_consistency\<close>, \<open>_validate_insured_value\<close>,
  \<open>_validate_vessel_name\<close> and \<open>_validate_completeness\<close> keep their names without
  the leading underscore. Each rule is a \<open>try\<close> block and its handlers: \<open>_try\<close> is
  the block, which returns a result or raises; the rule itself adds the handlers. A test
  \<open>not x\<close> on an \<open>Optional[str]\<close> holds for \<open>None\<close> and for the empty string.
\<close>

definition validate_date_consistency_try :: "runtime \<Rightarrow> ExtractedData \<Rightarrow> exn + ValidationResult" where
  "validate_date_consistency_try rt data =
     (case policy_start_date data of
        None \<Rightarrow> ValidationResult_init rt ''Date Consistency'' ''FAIL'' ''Missing start or end date.''
      | Some s \<Rightarrow>
          (case policy_end_date data of
             None \<Rightarrow> ValidationResult_init rt ''Date Consistency'' ''FAIL''
                      ''Missing start or end date.''
           | Some e \<Rightarrow>
               if s = [] \<or> e = []
               then ValidationResult_init rt ''Date Consistency'' ''FAIL''
                      ''Missing start or end date.''
               else
                 (case strptime rt s of
                    Inl x \<Rightarrow> Inl x
                  | Inr start_date \<Rightarrow>
                      (case strptime rt e of
                         Inl x \<Rightarrow> Inl x
                       | Inr end_date \<Rightarrow>
                           if datetime_gt end_date start_date
                           then ValidationResult_init rt ''Date Consistency'' ''PASS''
                                  ''Policy end date is after start date.''
                           else ValidationResult_init rt ''Date Consistency'' ''FAIL''
                                  (''Policy end date ('' @ e @ '') must be after start date (''
                                   @ s @ '').'')))))"

definition validate_date_consistency :: "runtime \<Rightarrow> ExtractedData \<Rightarrow> exn + ValidationResult" where
  "validate_date_consistency rt data =
     (case validate_date_consistency_try rt data of
        Inr r \<Rightarrow> Inr r
      | Inl x \<Rightarrow>
          if is_ValueError x
          then ValidationResult_init rt ''Date Consistency'' ''FAIL''
                 (''Invalid date format: '' @ msg x)
          else ValidationResult_init rt ''Date Consistency'' ''FAIL''
                 (''Date validation error: '' @ msg x))"

definition validate_insured_value_try :: "runtime \<Rightarrow> ExtractedData \<Rightarrow> exn + ValidationResult" where
  "validate_insured_value_try rt data =
     (case insured_value data of
        None \<Rightarrow> ValidationResult_init rt ''Value Check'' ''FAIL'' ''Insured value is missing.''
      | Some v \<Rightarrow>
          if gt_zero v
          then ValidationResult_init rt ''Value Check'' ''PASS'' ''Insured value is valid.''
          else ValidationResult_init rt ''Value Check'' ''FAIL''
                 (''Insured value ('' @ str_float rt v @ '') must be greater than 0.''))"

definition validate_insured_value :: "runtime \<Rightarrow> ExtractedData \<Rightarrow> exn + ValidationResult" where
  "validate_insured_value rt data =
     (case validate_insured_value_try rt data of
        Inr r \<Rightarrow> Inr r
      | Inl e \<Rightarrow> ValidationResult_init rt ''Value Check'' ''FAIL''
                  (''Value validation error: '' @ msg e))"

definition validate_completeness_try :: "runtime \<Rightarrow> ExtractedData \<Rightarrow> exn + ValidationResult" where
  "validate_completeness_try rt data =
     (case policy_number data of
        None \<Rightarrow> ValidationResult_init rt ''Completeness Check'' ''FAIL''
                 ''Policy number is missing or empty.''
      | Some p \<Rightarrow>
          if p \<noteq> [] \<and> strip p \<noteq> []
          then ValidationResult_init rt ''Completeness Check'' ''PASS'' ''Policy number is present.''
          else ValidationResult_init rt ''Completeness Check'' ''FAIL''
                 ''Policy number is missing or empty.'')"

definition validate_completeness :: "runtime \<Rightarrow> ExtractedData \<Rightarrow> exn + ValidationResult" where
  "validate_completeness rt data =
     (case validate_completeness_try rt data of
        Inr r \<Rightarrow> Inr r
      | Inl e \<Rightarrow> ValidationResult_init rt ''Completeness Check'' ''FAIL''
                  (''Completeness validation error: '' @ msg e))"

definition validate_vessel_name_try ::
  "runtime \<Rightarrow> DocumentValidator \<Rightarrow> ExtractedData \<Rightarrow> exn + ValidationResult" where
  "validate_vessel_name_try rt self data =
     (case vessel_name data of
        None \<Rightarrow> ValidationResult_init rt ''Vessel Name Match'' ''FAIL'' ''Vessel name is missing.''
      | Some name \<Rightarrow>
          if name = []
          then ValidationResult_init rt ''Vessel Name Match'' ''FAIL'' ''Vessel name is missing.''
          else if lower name \<in> lower ` valid_vessels self
          then ValidationResult_init rt ''Vessel Name Match'' ''PASS''
                 (''Vessel '' @ [CHR 0x27] @ name @ [CHR 0x27] @ '' is on the approved list.'')
          else ValidationResult_init rt ''Vessel Name Match'' ''FAIL''
                 (''Vessel '' @ [CHR 0x27] @ name @ [CHR 0x27] @ '' is not on the approved list.''))"

definition validate_vessel_name ::
  "runtime \<Rightarrow> DocumentValidator \<Rightarrow> ExtractedData \<Rightarrow> exn + ValidationResult" where
  "validate_vessel_name rt self data =
     (case validate_vessel_name_try rt self data of
        Inr r \<Rightarrow> Inr r
      | Inl x \<Rightarrow> ValidationResult_init rt ''Vessel Name Match'' ''FAIL''
                  (''Vessel validation error: '' @ msg x))"

text \<open>
  \<open>validate\<close> appends the four results in turn; an exception leaving a rule would leave
  \<open>validate\<close> too.
\<close>

definition validate ::
  "runtime \<Rightarrow> DocumentValidator \<Rightarrow> ExtractedData \<Rightarrow> exn + ValidationResult list" where
  "validate rt self data =
     (case validate_date_consistency rt data of
        Inl x \<Rightarrow> Inl x
      | Inr r1 \<Rightarrow>
          (case validate_insured_value rt data of
             Inl x \<Rightarrow> Inl x
           | Inr r2 \<Rightarrow>
               (case validate_vessel_name rt self data of
                  Inl x \<Rightarrow> Inl x
                | Inr r3 \<Rightarrow>
                    (case validate_completeness rt data of
                       Inl x \<Rightarrow> Inl x
                     | Inr r4 \<Rightarrow> Inr [r1, r2, r3, r4]))))"

section \<open>ai_extractor.py\<close>

text \<open>
  The Gemini model of the extractor is the function \<open>generate_content\<close>: it raises, or
  returns a response (\<open>None\<close>: a response that counts as false), whose \<open>text\<close> is a
  string or raises in turn.
\<close>

record GenerateContentResponse =
  response_text :: "exn + string"

record AIExtractor =
  generate_content :: "string \<Rightarrow> exn + GenerateContentResponse option"

text \<open>
  \<open>AIExtractor()\<close>: \<open>api_key\<close> is the environment variable \<open>GEMINI_API_KEY\<close>,
  \<open>configure\<close> the outcome of configuring the API and building the model.
\<close>

definition AIExtractor_init ::
  "string option \<Rightarrow> exn + (string \<Rightarrow> exn + GenerateContentResponse option) \<Rightarrow> exn + AIExtractor" where
  "AIExtractor_init api_key configure =
     (case api_key of
        None \<Rightarrow>
          Inl (Exn ValueError (''GEMINI_API_KEY not found in environment variables. ''
                               @ ''Please set it in your .env file.''))
      | Some k \<Rightarrow>
          if k = []
          then Inl (Exn ValueError (''GEMINI_API_KEY not found in environment variables. ''
                                    @ ''Please set it in your .env file.''))
          else (case configure of
                  Inl x \<Rightarrow> Inl (Exn ValueError (''Failed to initialize Gemini API: '' @ msg x))
                | Inr m \<Rightarrow> Inr \<lparr>generate_content = m\<rparr>))"

definition join_lines :: "string list \<Rightarrow> string" where
  "join_lines ls = concat (map (\<lambda>l. l @ [CHR 0x0A]) (butlast ls)) @ last ls"

definition quoted :: "string \<Rightarrow> string" where
  "quoted s = [CHR 0x22] @ s @ [CHR 0x22]"

definition build_prompt :: "string \<Rightarrow> string" where
  "build_prompt document_text =
     join_lines
       [''You are an expert insurance document parser.'',
        ''Extract and return only the following fields from the provided insurance document text in strict JSON format:'',
        ''{'',
        ''  '' @ quoted ''policy_number'' @ '': '' @ quoted ''...'' @ '','',
        ''  '' @ quoted ''vessel_name'' @ '': '' @ quoted ''...'' @ '','',
        ''  '' @ quoted ''policy_start_date'' @ '': '' @ quoted ''YYYY-MM-DD'' @ '','',
        ''  '' @ quoted ''policy_end_date'' @ '': '' @ quoted ''YYYY-MM-DD'' @ '','',
        ''  '' @ quoted ''insured_value'' @ '': number'',
        ''}'',
        [],
        ''Rules:'',
        ''- Extract dates in YYYY-MM-DD format'',
        ''- Convert insured_value to a numeric value (remove currency symbols and commas)'',
        ''- If a field cannot be found, use null'',
        ''- Return ONLY valid JSON, no explanations or markdown'',
        [],
        ''Document text:'',
        document_text,
        [],
        ''Return ONLY valid JSON.'']"

text \<open>
  The calls a request makes to its collaborators are recorded, in order, beside the
  result: the extractor, the model, the rule validator.
\<close>

datatype event = ExtractFields string | GenerateContent string | Validate ExtractedData

definition extract_fields_try :: "runtime \<Rightarrow> AIExtractor \<Rightarrow> string \<Rightarrow> exn + ExtractedData" where
  "extract_fields_try rt self document_text =
     (case generate_content self (build_prompt document_text) of
        Inl x \<Rightarrow> Inl x
      | Inr None \<Rightarrow> Inl (Exn ValueError ''Empty response received from Gemini AI'')
      | Inr (Some response) \<Rightarrow>
          (case response_text response of
             Inl x \<Rightarrow> Inl x
           | Inr t \<Rightarrow>
               if t = [] then Inl (Exn ValueError ''Empty response received from Gemini AI'')
               else
                 (case json_loads rt t of
                    Inl x \<Rightarrow>
                      if cls x = JSONDecodeError
                      then Inl (Exn ValueError (''Invalid JSON response from AI: '' @ msg x))
                      else Inl x
                  | Inr extracted_dict \<Rightarrow>
                      (case ExtractedData_init rt extracted_dict of
                         Inl x \<Rightarrow>
                           Inl (Exn ValueError (''Extracted data validation failed: '' @ msg x))
                       | Inr extracted \<Rightarrow> Inr extracted))))"

definition extract_fields ::
  "runtime \<Rightarrow> AIExtractor \<Rightarrow> string \<Rightarrow> event list \<times> (exn + ExtractedData)" where
  "extract_fields rt self document_text =
     ([GenerateContent (build_prompt document_text)],
      (case extract_fields_try rt self document_text of
         Inr extracted \<Rightarrow> Inr extracted
       | Inl x \<Rightarrow>
           if is_ValueError x then Inl x
           else Inl (Exn ValueError (''AI extraction failed: '' @ msg x))))"

section \<open>utils.py\<close>

text \<open>
  \<open>load_valid_vessels(filename)\<close> reads the file of that name (\<open>None\<close>: there is
  no such file, a \<open>FileNotFoundError\<close>), which must hold a JSON array of strings.
\<close>

fun str_of :: "json \<Rightarrow> string option" where
  "str_of (JStr s) = Some s"
| "str_of v = None"

definition load_valid_vessels :: "runtime \<Rightarrow> string \<Rightarrow> string option \<Rightarrow> exn + string set" where
  "load_valid_vessels rt filename file =
     (case file of
        None \<Rightarrow>
          Inl (Exn OtherException
                 (''Valid vessels file not found: '' @ str_path rt filename @ ''. ''
                  @ ''Please ensure valid_vessels.json exists in the project root.''))
      | Some content \<Rightarrow>
          (case json_loads rt content of
             Inl x \<Rightarrow>
               if cls x = JSONDecodeError
               then Inl (Exn ValueError (''Invalid JSON in valid_vessels.json: '' @ msg x))
               else Inl x
           | Inr (JList vs) \<Rightarrow>
               if list_all (\<lambda>v. str_of v \<noteq> None) vs
               then Inr (set (List.map_filter str_of vs))
               else Inl (Exn ValueError ''All vessel names must be strings'')
           | Inr v \<Rightarrow> Inl (Exn ValueError ''Valid vessels file must contain a JSON array'')))"

section \<open>main.py\<close>

text \<open>The two globals of the application, \<open>None\<close> until \<open>lifespan\<close> has set them.\<close>

record app =
  ai_extractor :: "AIExtractor option"
  validator :: "DocumentValidator option"

record HTTPException =
  status_code :: nat
  detail :: string

text \<open>
  \<open>lifespan\<close> up to its \<open>yield\<close>: the application serves requests only when this
  returns, and an exception here ends the start-up.
\<close>

definition lifespan ::
  "runtime \<Rightarrow> string option \<Rightarrow> exn + (string \<Rightarrow> exn + GenerateContentResponse option)
     \<Rightarrow> string option \<Rightarrow> exn + app" where
  "lifespan rt api_key configure vessels_file =
     (case AIExtractor_init api_key configure of
        Inl x \<Rightarrow> Inl x
      | Inr extractor \<Rightarrow>
          (case load_valid_vessels rt ''valid_vessels.json'' vessels_file of
             Inl x \<Rightarrow> Inl x
           | Inr vessels \<Rightarrow>
               Inr \<lparr>ai_extractor = Some extractor,
                    validator = Some \<lparr>valid_vessels = vessels\<rparr>\<rparr>))"

text \<open>The two handlers of \<open>validate_document\<close>.\<close>

definition http_error :: "exn \<Rightarrow> HTTPException" where
  "http_error x =
     (if is_ValueError x then \<lparr>status_code = 400, detail = msg x\<rparr>
      else \<lparr>status_code = 500, detail = ''Internal server error: '' @ msg x\<rparr>)"

definition validate_document ::
  "runtime \<Rightarrow> app \<Rightarrow> DocumentRequest \<Rightarrow> event list \<times> (HTTPException + ValidationResponse)" where
  "validate_document rt st request =
     (case ai_extractor st of
        None \<Rightarrow>
          ([], Inl \<lparr>status_code = 500,
                    detail = ''Service not properly initialized. Please try again later.''\<rparr>)
      | Some extractor \<Rightarrow>
          (case validator st of
             None \<Rightarrow>
               ([], Inl \<lparr>status_code = 500,
                         detail = ''Service not properly initialized. Please try again later.''\<rparr>)
           | Some v \<Rightarrow>
               if request_text request = [] \<or> strip (request_text request) = []
               then ([], Inl \<lparr>status_code = 400, detail = ''Document text cannot be empty''\<rparr>)
               else
                 (case extract_fields rt extractor (request_text request) of
                    (calls, Inl x) \<Rightarrow>
                      (ExtractFields (request_text request) # calls, Inl (http_error x))
                  | (calls, Inr extracted) \<Rightarrow>
                      (ExtractFields (request_text request) # calls @ [Validate extracted],
                       (case validate rt v extracted of
                          Inl x \<Rightarrow> Inl (http_error x)
                        | Inr results \<Rightarrow>
                            Inr \<lparr>extracted_data = extracted,
                                 validation_results = results\<rparr>)))))"

section \<open>The invariant of the data model and the examples of the specification\<close>

text \<open>
  A date field that is present parses as a calendar date with the format
  \<open>%Y-%m-%d\<close>.
\<close>

definition date_field_ok :: "string option \<Rightarrow> bool" where
  "date_field_ok v =
     (case v of None \<Rightarrow> True | Some s \<Rightarrow> (case parse_date s of Inr d \<Rightarrow> True | Inl e \<Rightarrow> False))"

definition ExtractedData_invariant :: "ExtractedData \<Rightarrow> bool" where
  "ExtractedData_invariant data =
     (date_field_ok (policy_start_date data) \<and> date_field_ok (policy_end_date data))"

text \<open>The string a field of the parsed object holds, if it holds one.\<close>

fun str_value :: "json option \<Rightarrow> string option" where
  "str_value (Some (JStr s)) = Some s"
| "str_value v = None"

text \<open>
  A field of the parsed object is present but malformed: it is there, it is not
  \<open>null\<close>, and it is not a string (not a string that parses as a date, not a value
  accepted as a number).
\<close>

fun malformed_str :: "json option \<Rightarrow> bool" where
  "malformed_str None = False"
| "malformed_str (Some JNull) = False"
| "malformed_str (Some (JStr s)) = False"
| "malformed_str (Some v) = True"

fun malformed_date :: "json option \<Rightarrow> bool" where
  "malformed_date None = False"
| "malformed_date (Some JNull) = False"
| "malformed_date (Some (JStr s)) = (\<not> date_field_ok (Some s))"
| "malformed_date (Some v) = True"

fun malformed_float :: "runtime \<Rightarrow> json option \<Rightarrow> bool" where
  "malformed_float rt None = False"
| "malformed_float rt (Some JNull) = False"
| "malformed_float rt (Some v) = (to_float rt v = None)"

text \<open>
  The extractor output of the specification's examples, as text and as parsed object, and
  a runtime that parses the texts given here, takes JSON numbers and booleans as floats
  (pydantic takes a string that spells a number as well), leaves a plain file name as it
  is and writes the floats of the examples as Python does.
\<close>

definition example_text :: string where
  "example_text =
     ''{'' @ quoted ''policy_number'' @ '': '' @ quoted ''HM-1'' @ '', ''
     @ quoted ''vessel_name'' @ '': '' @ quoted ''MV Neptune'' @ '', ''
     @ quoted ''policy_start_date'' @ '': '' @ quoted ''2025-11-01'' @ '', ''
     @ quoted ''policy_end_date'' @ '': '' @ quoted ''2026-10-31'' @ '', ''
     @ quoted ''insured_value'' @ '': 5000000}''"

definition example_object :: json where
  "example_object =
     JDict [(''policy_number'', JStr ''HM-1''), (''vessel_name'', JStr ''MV Neptune''),
            (''policy_start_date'', JStr ''2025-11-01''),
            (''policy_end_date'', JStr ''2026-10-31''), (''insured_value'', JInt 5000000)]"

text \<open>An answer of the model whose end date is not in the format.\<close>

definition malformed_text :: string where
  "malformed_text =
     ''{'' @ quoted ''policy_number'' @ '': '' @ quoted ''HM-1'' @ '', ''
     @ quoted ''policy_end_date'' @ '': '' @ quoted ''31/10/2026'' @ ''}''"

definition malformed_object :: json where
  "malformed_object =
     JDict [(''policy_number'', JStr ''HM-1''), (''policy_end_date'', JStr ''31/10/2026'')]"

text \<open>
  An answer of the model whose insured value is too large for a double: \<open>json.loads\<close>
  reads \<open>1e999\<close> as the float \<open>inf\<close>.
\<close>

definition overflow_text :: string where
  "overflow_text = ''{'' @ quoted ''insured_value'' @ '': 1e999}''"

definition overflow_object :: json where
  "overflow_object = JDict [(''insured_value'', JFloat PosInf)]"

definition example_runtime :: runtime where
  "example_runtime =
     \<lparr>str_float =
        (\<lambda>v. case v of
               Finite r \<Rightarrow>
                 if r = 5000000 then ''5000000.0'' else if r = - 100 then ''-100.0'' else ''0.0''
             | NegZero \<Rightarrow> ''-0.0''
             | PosInf \<Rightarrow> ''inf'' | NegInf \<Rightarrow> ''-inf'' | NaN \<Rightarrow> ''nan''),
      str_error = (\<lambda>e. ''error''),
      str_path = (\<lambda>name. name),
      json_loads =
        (\<lambda>t. if t = example_text then Inr example_object
             else if t = malformed_text then Inr malformed_object
             else if t = overflow_text then Inr overflow_object
             else Inl (Exn JSONDecodeError ''Expecting value'')),
      to_float =
        (\<lambda>v. case v of
               JInt i \<Rightarrow> Some (Finite (of_int i))
             | JFloat f \<Rightarrow> Some f
             | JBool b \<Rightarrow> Some (Finite (if b then 1 else 0))
             | _ \<Rightarrow> None)\<rparr>"

definition example_data :: ExtractedData where
  "example_data =
     \<lparr>policy_number = Some ''HM-1'', vessel_name = Some ''MV Neptune'',
      policy_start_date = Some ''2025-11-01'', policy_end_date = Some ''2026-10-31'',
      insured_value = Some (Finite 5000000)\<rparr>"

text \<open>The record that the constructor makes of the answer with the infinite value.\<close>

definition overflow_data :: ExtractedData where
  "overflow_data =
     \<lparr>policy_number = None, vessel_name = None, policy_start_date = None,
      policy_end_date = None, insured_value = Some PosInf\<rparr>"

definition example_validator :: DocumentValidator where
  "example_validator = \<lparr>valid_vessels = {''MV Neptune''}\<rparr>"

text \<open>An application whose model answers every prompt with the text it is given.\<close>

definition example_extractor :: "string \<Rightarrow> AIExtractor" where
  "example_extractor answer =
     \<lparr>generate_content = (\<lambda>prompt. Inr (Some \<lparr>response_text = Inr answer\<rparr>))\<rparr>"

definition example_app :: "string \<Rightarrow> app" where
  "example_app answer =
     \<lparr>ai_extractor = Some (example_extractor answer), validator = Some example_validator\<rparr>"

section \<open>Helper facts\<close>

lemma ValidationResult_init_PASS [simp]:
  "ValidationResult_init rt r ''PASS'' m = Inr \<lparr>rule = r, status = ''PASS'', message = m\<rparr>"
  by (simp add: ValidationResult_init_def)

lemma ValidationResult_init_FAIL [simp]:
  "ValidationResult_init rt r ''FAIL'' m = Inr \<lparr>rule = r, status = ''FAIL'', message = m\<rparr>"
  by (simp add: ValidationResult_init_def)

lemma strip_Nil [simp]: "strip [] = []"
  by (simp add: strip_def)

lemma all_dropWhile: "(\<forall>x \<in> set (dropWhile P s). P x) \<longleftrightarrow> (\<forall>x \<in> set s. P x)"
  by (induction s) auto

lemma strip_empty_iff: "strip s = [] \<longleftrightarrow> (\<forall>c \<in> set s. isspace c)"
  by (simp add: strip_def all_dropWhile)

lemmas char_eval = isspace_def code_point_def lower_def lower_char_def Let_def

section \<open>The four rules\<close>

text \<open>
  C7. Value Check passes exactly when \<open>insured_value\<close> is present and greater than 0:
  a positive finite number or the positive infinity. An absent value fails with the
  message \<open>Insured value is missing.\<close>, and a value that is zero (of either sign),
  negative or NaN fails with a message that cites the value as Python writes it.
\<close>

theorem value_check_rule:
  "(\<exists>r. validate_insured_value rt data = Inr r \<and> rule r = ''Value Check''
        \<and> (status r = ''PASS'' \<or> status r = ''FAIL'')
        \<and> (status r = ''PASS'' \<longleftrightarrow>
             (\<exists>x. insured_value data = Some (Finite x) \<and> 0 < x)
             \<or> insured_value data = Some PosInf))
   \<and> (insured_value data = None \<longrightarrow>
        validate_insured_value rt data =
          Inr \<lparr>rule = ''Value Check'', status = ''FAIL'', message = ''Insured value is missing.''\<rparr>)
   \<and> (\<forall>v. insured_value data = Some v
           \<and> ((\<exists>x. v = Finite x \<and> x \<le> 0) \<or> v = NegZero \<or> v = NegInf \<or> v = NaN) \<longrightarrow>
        validate_insured_value rt data =
          Inr \<lparr>rule = ''Value Check'', status = ''FAIL'',
               message = ''Insured value ('' @ str_float rt v @ '') must be greater than 0.''\<rparr>)"
proof (cases "insured_value data")
  case None
  then show ?thesis
    by (simp add: validate_insured_value_def validate_insured_value_try_def)
next
  case (Some v)
  then show ?thesis
    by (cases v)
       (auto simp add: validate_insured_value_def validate_insured_value_try_def not_less)
qed

theorem value_check_rule_witness:
  "(\<exists>r. validate_insured_value example_runtime example_data = Inr r \<and> status r = ''PASS'')
   \<and> (\<exists>r. validate_insured_value example_runtime (example_data\<lparr>insured_value := Some PosInf\<rparr>)
            = Inr r \<and> status r = ''PASS'')
   \<and> validate_insured_value example_runtime (example_data\<lparr>insured_value := None\<rparr>) =
     Inr \<lparr>rule = ''Value Check'', status = ''FAIL'', message = ''Insured value is missing.''\<rparr>
   \<and> validate_insured_value example_runtime (example_data\<lparr>insured_value := Some (Finite (- 100))\<rparr>) =
     Inr \<lparr>rule = ''Value Check'', status = ''FAIL'',
          message = ''Insured value (-100.0) must be greater than 0.''\<rparr>
   \<and> validate_insured_value example_runtime (example_data\<lparr>insured_value := Some (Finite 0)\<rparr>) =
     Inr \<lparr>rule = ''Value Check'', status = ''FAIL'',
          message = ''Insured value (0.0) must be greater than 0.''\<rparr>
   \<and> validate_insured_value example_runtime (example_data\<lparr>insured_value := Some NegZero\<rparr>) =
     Inr \<lparr>rule = ''Value Check'', status = ''FAIL'',
          message = ''Insured value (-0.0) must be greater than 0.''\<rparr>"
proof -
  have pass: "\<exists>r. validate_insured_value example_runtime example_data = Inr r \<and> status r = ''PASS''"
    using value_check_rule [of example_runtime example_data]
    by (auto simp add: example_data_def)
  have inf: "\<exists>r. validate_insured_value example_runtime (example_data\<lparr>insured_value := Some PosInf\<rparr>)
            = Inr r \<and> status r = ''PASS''"
    using value_check_rule [of example_runtime "example_data\<lparr>insured_value := Some PosInf\<rparr>"]
    by auto
  have fails: "validate_insured_value example_runtime (example_data\<lparr>insured_value := None\<rparr>) =
     Inr \<lparr>rule = ''Value Check'', status = ''FAIL'', message = ''Insured value is missing.''\<rparr>
   \<and> validate_insured_value example_runtime (example_data\<lparr>insured_value := Some (Finite (- 100))\<rparr>) =
     Inr \<lparr>rule = ''Value Check'', status = ''FAIL'',
          message = ''Insured value (-100.0) must be greater than 0.''\<rparr>
   \<and> validate_insured_value example_runtime (example_data\<lparr>insured_value := Some (Finite 0)\<rparr>) =
     Inr \<lparr>rule = ''Value Check'', status = ''FAIL'',
          message = ''Insured value (0.0) must be greater than 0.''\<rparr>
   \<and> validate_insured_value example_runtime (example_data\<lparr>insured_value := Some NegZero\<rparr>) =
     Inr \<lparr>rule = ''Value Check'', status = ''FAIL'',
          message = ''Insured value (-0.0) must be greater than 0.''\<rparr>"
    using value_check_rule [of example_runtime "example_data\<lparr>insured_value := None\<rparr>"]
      value_check_rule [of example_runtime "example_data\<lparr>insured_value := Some (Finite (- 100))\<rparr>"]
      value_check_rule [of example_runtime "example_data\<lparr>insured_value := Some (Finite 0)\<rparr>"]
      value_check_rule [of example_runtime "example_data\<lparr>insured_value := Some NegZero\<rparr>"]
    by (simp add: example_runtime_def)
  show ?thesis
    using pass inf fails by blast
qed

text \<open>
  C8. Completeness Check passes exactly when \<open>policy_number\<close> is present and is not
  empty once its whitespace is trimmed; in every other case it fails with the message
  \<open>Policy number is missing or empty.\<close>
\<close>

theorem completeness_check_rule:
  "\<exists>r. validate_completeness rt data = Inr r \<and> rule r = ''Completeness Check''
       \<and> (status r = ''PASS'' \<longleftrightarrow> (\<exists>p. policy_number data = Some p \<and> strip p \<noteq> []))
       \<and> (status r \<noteq> ''PASS'' \<longrightarrow>
            status r = ''FAIL'' \<and> message r = ''Policy number is missing or empty.'')"
proof (cases "policy_number data")
  case None
  then show ?thesis
    by (simp add: validate_completeness_def validate_completeness_try_def)
next
  case (Some p)
  have "p = [] \<Longrightarrow> strip p = []" by simp
  with Some show ?thesis
    by (auto simp add: validate_completeness_def validate_completeness_try_def)
qed

theorem completeness_check_rule_witness:
  "(\<exists>r. validate_completeness example_runtime example_data = Inr r \<and> status r = ''PASS'')
   \<and> (\<exists>r. validate_completeness example_runtime (example_data\<lparr>policy_number := Some ''   ''\<rparr>) = Inr r
          \<and> status r = ''FAIL'' \<and> message r = ''Policy number is missing or empty.'')"
proof
  have "strip ''HM-1'' \<noteq> []"
    by (simp add: strip_def char_eval)
  then show "\<exists>r. validate_completeness example_runtime example_data = Inr r \<and> status r = ''PASS''"
    using completeness_check_rule [of example_runtime example_data]
    by (auto simp add: example_data_def)
next
  have "strip ''   '' = []"
    by (simp add: strip_def char_eval)
  then show "\<exists>r. validate_completeness example_runtime (example_data\<lparr>policy_number := Some ''   ''\<rparr>) = Inr r
          \<and> status r = ''FAIL'' \<and> message r = ''Policy number is missing or empty.''"
    using completeness_check_rule [of example_runtime "example_data\<lparr>policy_number := Some ''   ''\<rparr>"]
    by auto
qed

text \<open>
  C6, as the code has it. Vessel Name Match fails with \<open>Vessel name is missing.\<close>
  when \<open>vessel_name\<close> is absent or is the empty string. For any other name it passes
  exactly when the lower-cased name is the lower-casing of a member of the approved set,
  and the message cites the name, between quotes, whether it passes or fails.
\<close>

theorem vessel_name_rule:
  "(\<exists>r. validate_vessel_name rt self data = Inr r \<and> rule r = ''Vessel Name Match''
        \<and> (status r = ''PASS'' \<or> status r = ''FAIL'')
        \<and> (status r = ''PASS'' \<longleftrightarrow>
             (\<exists>name. vessel_name data = Some name \<and> name \<noteq> []
                     \<and> (\<exists>v \<in> valid_vessels self. lower name = lower v))))
   \<and> (vessel_name data = None \<or> vessel_name data = Some [] \<longrightarrow>
        validate_vessel_name rt self data =
          Inr \<lparr>rule = ''Vessel Name Match'', status = ''FAIL'',
               message = ''Vessel name is missing.''\<rparr>)
   \<and> (\<forall>name. vessel_name data = Some name \<and> name \<noteq> [] \<longrightarrow>
        validate_vessel_name rt self data =
          Inr (if \<exists>v \<in> valid_vessels self. lower name = lower v
               then \<lparr>rule = ''Vessel Name Match'', status = ''PASS'',
                     message = ''Vessel '' @ [CHR 0x27] @ name @ [CHR 0x27]
                               @ '' is on the approved list.''\<rparr>
               else \<lparr>rule = ''Vessel Name Match'', status = ''FAIL'',
                     message = ''Vessel '' @ [CHR 0x27] @ name @ [CHR 0x27]
                               @ '' is not on the approved list.''\<rparr>))"
proof -
  have mem: "lower name \<in> lower ` valid_vessels self
             \<longleftrightarrow> (\<exists>v \<in> valid_vessels self. lower name = lower v)" for name
    by auto
  show ?thesis
  proof (cases "vessel_name data")
    case None
    then show ?thesis
      by (simp add: validate_vessel_name_def validate_vessel_name_try_def)
  next
    case (Some name)
    then show ?thesis
      by (simp add: validate_vessel_name_def validate_vessel_name_try_def mem)
  qed
qed

theorem vessel_name_rule_witness:
  "validate_vessel_name example_runtime example_validator
     (example_data\<lparr>vessel_name := Some ''mv NEPTUNE''\<rparr>) =
     Inr \<lparr>rule = ''Vessel Name Match'', status = ''PASS'',
          message = ''Vessel '' @ [CHR 0x27] @ ''mv NEPTUNE'' @ [CHR 0x27]
                    @ '' is on the approved list.''\<rparr>
   \<and> validate_vessel_name example_runtime example_validator
       (example_data\<lparr>vessel_name := Some ''MV Triton''\<rparr>) =
     Inr \<lparr>rule = ''Vessel Name Match'', status = ''FAIL'',
          message = ''Vessel '' @ [CHR 0x27] @ ''MV Triton'' @ [CHR 0x27]
                    @ '' is not on the approved list.''\<rparr>
   \<and> validate_vessel_name example_runtime example_validator
       (example_data\<lparr>vessel_name := None\<rparr>) =
     Inr \<lparr>rule = ''Vessel Name Match'', status = ''FAIL'',
          message = ''Vessel name is missing.''\<rparr>"
proof -
  have a: "lower ''mv NEPTUNE'' = lower ''MV Neptune''"
    by code_simp
  have b: "lower ''MV Triton'' \<noteq> lower ''MV Neptune''"
    by code_simp
  show ?thesis
    using vessel_name_rule [of example_runtime example_validator
        "example_data\<lparr>vessel_name := Some ''mv NEPTUNE''\<rparr>"]
      vessel_name_rule [of example_runtime example_validator
        "example_data\<lparr>vessel_name := Some ''MV Triton''\<rparr>"]
      vessel_name_rule [of example_runtime example_validator
        "example_data\<lparr>vessel_name := None\<rparr>"]
      a b
    by (simp add: example_validator_def)
qed

text \<open>
  C6, as the specification states it, fails for an empty vessel name: the name is
  present and its lower-casing is the lower-casing of a member of the approved set, yet
  the rule fails.
\<close>

theorem vessel_name_rule_counterexample:
  "vessel_name (example_data\<lparr>vessel_name := Some []\<rparr>) = Some []
   \<and> lower [] \<in> lower ` valid_vessels \<lparr>valid_vessels = {[], ''MV Neptune''}\<rparr>
   \<and> validate_vessel_name example_runtime \<lparr>valid_vessels = {[], ''MV Neptune''}\<rparr>
       (example_data\<lparr>vessel_name := Some []\<rparr>) =
     Inr \<lparr>rule = ''Vessel Name Match'', status = ''FAIL'',
          message = ''Vessel name is missing.''\<rparr>"
  by (simp add: validate_vessel_name_def validate_vessel_name_try_def)

text \<open>The approved set can hold the empty name: the loader takes any array of strings.\<close>

lemma load_valid_vessels_empty_name:
  "json_loads rt content = Inr (JList [JStr [], JStr ''MV Neptune'']) \<Longrightarrow>
   load_valid_vessels rt filename (Some content) = Inr {[], ''MV Neptune''}"
  by (simp add: load_valid_vessels_def List.map_filter_def)

section \<open>The validator as a whole\<close>

lemma date_consistency_total:
  "\<exists>r. validate_date_consistency rt data = Inr r \<and> rule r = ''Date Consistency''
       \<and> (status r = ''PASS'' \<or> status r = ''FAIL'') \<and> message r \<noteq> []"
  by (simp add: validate_date_consistency_def validate_date_consistency_try_def
        split: option.split sum.split)

lemma insured_value_total:
  "\<exists>r. validate_insured_value rt data = Inr r \<and> rule r = ''Value Check''
       \<and> (status r = ''PASS'' \<or> status r = ''FAIL'') \<and> message r \<noteq> []"
  by (simp add: validate_insured_value_def validate_insured_value_try_def split: option.split)

lemma vessel_name_total:
  "\<exists>r. validate_vessel_name rt self data = Inr r \<and> rule r = ''Vessel Name Match''
       \<and> (status r = ''PASS'' \<or> status r = ''FAIL'') \<and> message r \<noteq> []"
  by (simp add: validate_vessel_name_def validate_vessel_name_try_def split: option.split)

lemma completeness_total:
  "\<exists>r. validate_completeness rt data = Inr r \<and> rule r = ''Completeness Check''
       \<and> (status r = ''PASS'' \<or> status r = ''FAIL'') \<and> message r \<noteq> []"
  by (simp add: validate_completeness_def validate_completeness_try_def split: option.split)

text \<open>
  C2. For every record and every approved set, \<open>validate\<close> raises nothing and returns
  four results, those of Date Consistency, Value Check, Vessel Name Match and Completeness
  Check in this order. Each is the result its rule gives on its own, has the status
  \<open>PASS\<close> or \<open>FAIL\<close>, and has a message that is not empty.
\<close>

theorem validate_four_results:
  "\<exists>r1 r2 r3 r4.
     validate rt self data = Inr [r1, r2, r3, r4]
     \<and> validate_date_consistency rt data = Inr r1 \<and> rule r1 = ''Date Consistency''
     \<and> validate_insured_value rt data = Inr r2 \<and> rule r2 = ''Value Check''
     \<and> validate_vessel_name rt self data = Inr r3 \<and> rule r3 = ''Vessel Name Match''
     \<and> validate_completeness rt data = Inr r4 \<and> rule r4 = ''Completeness Check''
     \<and> (status r1 = ''PASS'' \<or> status r1 = ''FAIL'') \<and> message r1 \<noteq> []
     \<and> (status r2 = ''PASS'' \<or> status r2 = ''FAIL'') \<and> message r2 \<noteq> []
     \<and> (status r3 = ''PASS'' \<or> status r3 = ''FAIL'') \<and> message r3 \<noteq> []
     \<and> (status r4 = ''PASS'' \<or> status r4 = ''FAIL'') \<and> message r4 \<noteq> []"
proof -
  obtain r1 where r1: "validate_date_consistency rt data = Inr r1" "rule r1 = ''Date Consistency''"
      "status r1 = ''PASS'' \<or> status r1 = ''FAIL''" "message r1 \<noteq> []"
    using date_consistency_total by blast
  obtain r2 where r2: "validate_insured_value rt data = Inr r2" "rule r2 = ''Value Check''"
      "status r2 = ''PASS'' \<or> status r2 = ''FAIL''" "message r2 \<noteq> []"
    using insured_value_total by blast
  obtain r3 where r3: "validate_vessel_name rt self data = Inr r3" "rule r3 = ''Vessel Name Match''"
      "status r3 = ''PASS'' \<or> status r3 = ''FAIL''" "message r3 \<noteq> []"
    using vessel_name_total by blast
  obtain r4 where r4: "validate_completeness rt data = Inr r4" "rule r4 = ''Completeness Check''"
      "status r4 = ''PASS'' \<or> status r4 = ''FAIL''" "message r4 \<noteq> []"
    using completeness_total by blast
  have "validate rt self data = Inr [r1, r2, r3, r4]"
    by (simp add: validate_def r1(1) r2(1) r3(1) r4(1))
  with r1 r2 r3 r4 show ?thesis by blast
qed

theorem validate_four_results_witness:
  "validate example_runtime example_validator example_data =
     Inr [\<lparr>rule = ''Date Consistency'', status = ''PASS'',
           message = ''Policy end date is after start date.''\<rparr>,
          \<lparr>rule = ''Value Check'', status = ''PASS'', message = ''Insured value is valid.''\<rparr>,
          \<lparr>rule = ''Vessel Name Match'', status = ''PASS'',
           message = ''Vessel '' @ [CHR 0x27] @ ''MV Neptune'' @ [CHR 0x27]
                     @ '' is on the approved list.''\<rparr>,
          \<lparr>rule = ''Completeness Check'', status = ''PASS'',
           message = ''Policy number is present.''\<rparr>]"
proof -
  have d: "validate_date_consistency example_runtime example_data =
             Inr \<lparr>rule = ''Date Consistency'', status = ''PASS'',
                  message = ''Policy end date is after start date.''\<rparr>"
    by code_simp
  have v: "validate_insured_value example_runtime example_data =
             Inr \<lparr>rule = ''Value Check'', status = ''PASS'', message = ''Insured value is valid.''\<rparr>"
    by code_simp
  have n: "validate_vessel_name example_runtime example_validator example_data =
             Inr \<lparr>rule = ''Vessel Name Match'', status = ''PASS'',
                  message = ''Vessel '' @ [CHR 0x27] @ ''MV Neptune'' @ [CHR 0x27]
                            @ '' is on the approved list.''\<rparr>"
    by code_simp
  have c: "validate_completeness example_runtime example_data =
             Inr \<lparr>rule = ''Completeness Check'', status = ''PASS'',
                  message = ''Policy number is present.''\<rparr>"
    by code_simp
  show ?thesis
    using validate_four_results [of example_runtime example_validator example_data] d v n c
    by auto
qed

section \<open>Dates\<close>

lemma parse_date_Nil [simp]: "parse_date [] = Inl (NoMatch [])"
  by (simp add: parse_date_def regex_match_def)

lemma strptime_Inr_iff [simp]: "strptime rt s = Inr d \<longleftrightarrow> parse_date s = Inr d"
  by (simp add: strptime_def split: sum.split)

lemma date_field_ok_Some: "date_field_ok (Some s) \<longleftrightarrow> (\<exists>d. parse_date s = Inr d)"
  by (simp add: date_field_ok_def split: sum.split)

lemma date_field_ok_nonempty: "date_field_ok (Some s) \<Longrightarrow> s \<noteq> []"
  by (auto simp add: date_field_ok_def)

text \<open>The comparison of two parsed dates is a strict linear order.\<close>

lemma datetime_gt_irrefl: "\<not> datetime_gt a a"
  by (simp add: datetime_gt_def)

lemma datetime_gt_trans: "datetime_gt a b \<Longrightarrow> datetime_gt b c \<Longrightarrow> datetime_gt a c"
  by (auto simp add: datetime_gt_def)

lemma datetime_gt_total: "datetime_gt a b \<or> a = b \<or> datetime_gt b a"
  by (cases a, cases b) (auto simp add: datetime_gt_def)

text \<open>A later date has a greater day number, and the comparison of the code agrees.\<close>

lemma sum_upt_Suc:
  "1 \<le> a \<Longrightarrow> sum_list (map f [1..<Suc a]) = sum_list (map f [1..<a]) + (f a :: nat)"
  by simp

lemma sum_upt_mono:
  "a \<le> b \<Longrightarrow> sum_list (map f [1..<a]) \<le> (sum_list (map f [1..<b]) :: nat)"
proof (induction b)
  case 0
  then show ?case by simp
next
  case (Suc b)
  show ?case
  proof (cases "a = Suc b")
    case True
    then show ?thesis by simp
  next
    case False
    with Suc.prems have "a \<le> b" by simp
    then have "sum_list (map f [1..<a]) \<le> sum_list (map f [1..<b])"
      by (rule Suc.IH)
    also have "\<dots> \<le> sum_list (map f [1..<Suc b])"
      by (cases "1 \<le> b") simp_all
    finally show ?thesis .
  qed
qed

lemma months_of_year:
  "sum_list (map (days_in_month y) [1..<13]) = days_in_year y"
proof -
  have "[1..<13] = [1, 2, 3, 4, 5, 6, 7, 8, 9, 10, 11, 12 :: nat]"
    by code_simp
  then show ?thesis
    by (simp add: days_in_month_def days_in_year_def)
qed

lemma day_in_year_bound:
  assumes "valid_date a"
  shows "sum_list (map (days_in_month (year a)) [1..<month a]) + day a \<le> days_in_year (year a)"
proof -
  have m: "1 \<le> month a" "month a \<le> 12" and d: "day a \<le> days_in_month (year a) (month a)"
    using assms by (simp_all add: valid_date_def)
  have "sum_list (map (days_in_month (year a)) [1..<month a]) + day a
        \<le> sum_list (map (days_in_month (year a)) [1..<Suc (month a)])"
    using m(1) d by (simp add: sum_upt_Suc)
  also have "\<dots> \<le> sum_list (map (days_in_month (year a)) [1..<13])"
    using m(2) by (intro sum_upt_mono) simp
  finally show ?thesis
    using months_of_year [of "year a"] by simp
qed

lemma day_number_less_year:
  assumes "valid_date a" and "valid_date b" and "year a < year b"
  shows "day_number a < day_number b"
proof -
  have ya: "1 \<le> year a" and db: "1 \<le> day b"
    using assms by (simp_all add: valid_date_def)
  have "day_number a \<le> sum_list (map days_in_year [1..<year a]) + days_in_year (year a)"
    using day_in_year_bound [OF assms(1)] by (simp add: day_number_def)
  also have "\<dots> = sum_list (map days_in_year [1..<Suc (year a)])"
    using ya by (simp add: sum_upt_Suc)
  also have "\<dots> \<le> sum_list (map days_in_year [1..<year b])"
    using assms(3) by (intro sum_upt_mono) simp
  also have "\<dots> < day_number b"
    using db by (simp add: day_number_def)
  finally show ?thesis .
qed

lemma day_number_less_month:
  assumes "valid_date a" and "valid_date b" and "year a = year b" and "month a < month b"
  shows "day_number a < day_number b"
proof -
  have ma: "1 \<le> month a" and da: "day a \<le> days_in_month (year a) (month a)"
    and db: "1 \<le> day b"
    using assms by (simp_all add: valid_date_def)
  have "sum_list (map (days_in_month (year a)) [1..<month a]) + day a
        \<le> sum_list (map (days_in_month (year a)) [1..<Suc (month a)])"
    using ma da by (simp add: sum_upt_Suc)
  also have "\<dots> \<le> sum_list (map (days_in_month (year a)) [1..<month b])"
    using assms(4) by (intro sum_upt_mono) simp
  finally show ?thesis
    using assms(3) db by (simp add: day_number_def)
qed

lemma day_number_less_day:
  assumes "year a = year b" and "month a = month b" and "day a < day b"
  shows "day_number a < day_number b"
  using assms by (simp add: day_number_def)

lemma datetime_gt_day_number:
  assumes "valid_date a" and "valid_date b"
  shows "datetime_gt b a \<longleftrightarrow> day_number a < day_number b"
proof
  assume "datetime_gt b a"
  then show "day_number a < day_number b"
    using assms day_number_less_year [of a b] day_number_less_month [of a b]
      day_number_less_day [of a b]
    by (auto simp add: datetime_gt_def)
next
  assume less: "day_number a < day_number b"
  show "datetime_gt b a"
  proof (rule ccontr)
    assume "\<not> datetime_gt b a"
    then have "a = b \<or> datetime_gt a b"
      using datetime_gt_total [of a b] by auto
    then have "day_number b \<le> day_number a"
    proof
      assume "a = b"
      then show ?thesis by simp
    next
      assume "datetime_gt a b"
      then have "day_number b < day_number a"
        using assms day_number_less_year [of b a] day_number_less_month [of b a]
          day_number_less_day [of b a]
        by (auto simp add: datetime_gt_def)
      then show ?thesis by simp
    qed
    with less show False by simp
  qed
qed

lemma parse_date_valid: "parse_date s = Inr d \<Longrightarrow> valid_date d"
  by (auto simp add: parse_date_def valid_date_def split: option.splits if_splits)

text \<open>
  C1. On a record that satisfies the invariant of the model, with both dates present,
  Date Consistency passes exactly when the end date is a later day than the start date,
  that is, when its day number is greater; otherwise, on the same day or an earlier one,
  it fails with a message that cites both dates. With a date absent it fails with
  \<open>Missing start or end date.\<close>
\<close>

theorem date_consistency_rule:
  assumes "ExtractedData_invariant data"
  shows "(\<forall>s e. policy_start_date data = Some s \<and> policy_end_date data = Some e \<longrightarrow>
            (\<exists>start_date end_date.
               parse_date s = Inr start_date \<and> parse_date e = Inr end_date
               \<and> validate_date_consistency rt data =
                   Inr (if day_number start_date < day_number end_date
                        then \<lparr>rule = ''Date Consistency'', status = ''PASS'',
                              message = ''Policy end date is after start date.''\<rparr>
                        else \<lparr>rule = ''Date Consistency'', status = ''FAIL'',
                              message = ''Policy end date ('' @ e
                                        @ '') must be after start date ('' @ s @ '').''\<rparr>)))
       \<and> (policy_start_date data = None \<or> policy_end_date data = None \<longrightarrow>
            validate_date_consistency rt data =
              Inr \<lparr>rule = ''Date Consistency'', status = ''FAIL'',
                   message = ''Missing start or end date.''\<rparr>)"
proof (intro conjI allI impI)
  fix s e
  assume present: "policy_start_date data = Some s \<and> policy_end_date data = Some e"
  with assms have ok: "date_field_ok (Some s)" "date_field_ok (Some e)"
    by (simp_all add: ExtractedData_invariant_def)
  then obtain start_date end_date
    where parsed: "parse_date s = Inr start_date" "parse_date e = Inr end_date"
    by (auto simp add: date_field_ok_Some)
  have nonempty: "s \<noteq> []" "e \<noteq> []"
    using ok by (simp_all add: date_field_ok_nonempty)
  have later: "datetime_gt end_date start_date \<longleftrightarrow> day_number start_date < day_number end_date"
    using parsed by (intro datetime_gt_day_number parse_date_valid)
  have "validate_date_consistency rt data =
          Inr (if day_number start_date < day_number end_date
               then \<lparr>rule = ''Date Consistency'', status = ''PASS'',
                     message = ''Policy end date is after start date.''\<rparr>
               else \<lparr>rule = ''Date Consistency'', status = ''FAIL'',
                     message = ''Policy end date ('' @ e
                               @ '') must be after start date ('' @ s @ '').''\<rparr>)"
    using present parsed nonempty later
    by (simp add: validate_date_consistency_def validate_date_consistency_try_def strptime_def)
  then show "\<exists>start_date end_date.
               parse_date s = Inr start_date \<and> parse_date e = Inr end_date
               \<and> validate_date_consistency rt data =
                   Inr (if day_number start_date < day_number end_date
                        then \<lparr>rule = ''Date Consistency'', status = ''PASS'',
                              message = ''Policy end date is after start date.''\<rparr>
                        else \<lparr>rule = ''Date Consistency'', status = ''FAIL'',
                              message = ''Policy end date ('' @ e
                                        @ '') must be after start date ('' @ s @ '').''\<rparr>)"
    using parsed by blast
next
  assume "policy_start_date data = None \<or> policy_end_date data = None"
  then show "validate_date_consistency rt data =
              Inr \<lparr>rule = ''Date Consistency'', status = ''FAIL'',
                   message = ''Missing start or end date.''\<rparr>"
    by (auto simp add: validate_date_consistency_def validate_date_consistency_try_def
          split: option.split)
qed

theorem date_consistency_rule_witness:
  "validate_date_consistency example_runtime example_data =
       Inr \<lparr>rule = ''Date Consistency'', status = ''PASS'',
            message = ''Policy end date is after start date.''\<rparr>
   \<and> validate_date_consistency example_runtime
         (example_data\<lparr>policy_end_date := Some ''2025-11-01''\<rparr>) =
       Inr \<lparr>rule = ''Date Consistency'', status = ''FAIL'',
            message = ''Policy end date (2025-11-01) must be after start date (2025-11-01).''\<rparr>
   \<and> validate_date_consistency example_runtime
         (example_data\<lparr>policy_end_date := Some ''2020-01-01''\<rparr>) =
       Inr \<lparr>rule = ''Date Consistency'', status = ''FAIL'',
            message = ''Policy end date (2020-01-01) must be after start date (2025-11-01).''\<rparr>
   \<and> validate_date_consistency example_runtime
         (example_data\<lparr>policy_end_date := Some ''2025-10-31''\<rparr>) =
       Inr \<lparr>rule = ''Date Consistency'', status = ''FAIL'',
            message = ''Policy end date (2025-10-31) must be after start date (2025-11-01).''\<rparr>
   \<and> validate_date_consistency example_runtime (example_data\<lparr>policy_end_date := None\<rparr>) =
       Inr \<lparr>rule = ''Date Consistency'', status = ''FAIL'',
            message = ''Missing start or end date.''\<rparr>"
proof -
  have s: "parse_date ''2025-11-01'' = Inr \<lparr>year = 2025, month = 11, day = 1\<rparr>"
    by code_simp
  have e: "parse_date ''2026-10-31'' = Inr \<lparr>year = 2026, month = 10, day = 31\<rparr>"
    by code_simp
  have b: "parse_date ''2020-01-01'' = Inr \<lparr>year = 2020, month = 1, day = 1\<rparr>"
    by code_simp
  have c: "parse_date ''2025-10-31'' = Inr \<lparr>year = 2025, month = 10, day = 31\<rparr>"
    by code_simp
  have later: "day_number \<lparr>year = 2025, month = 11, day = 1\<rparr>
               < day_number \<lparr>year = 2026, month = 10, day = 31\<rparr>"
    using datetime_gt_day_number [OF parse_date_valid [OF s] parse_date_valid [OF e]]
    by (simp add: datetime_gt_def)
  have earlier: "\<not> day_number \<lparr>year = 2025, month = 11, day = 1\<rparr>
                 < day_number \<lparr>year = 2020, month = 1, day = 1\<rparr>"
    using datetime_gt_day_number [OF parse_date_valid [OF s] parse_date_valid [OF b]]
    by (simp add: datetime_gt_def)
  have day_before: "\<not> day_number \<lparr>year = 2025, month = 11, day = 1\<rparr>
                    < day_number \<lparr>year = 2025, month = 10, day = 31\<rparr>"
    using datetime_gt_day_number [OF parse_date_valid [OF s] parse_date_valid [OF c]]
    by (simp add: datetime_gt_def)
  have i1: "ExtractedData_invariant example_data"
    by (simp add: ExtractedData_invariant_def date_field_ok_def example_data_def s e)
  have i2: "ExtractedData_invariant (example_data\<lparr>policy_end_date := Some ''2025-11-01''\<rparr>)"
    by (simp add: ExtractedData_invariant_def date_field_ok_def example_data_def s)
  have i3: "ExtractedData_invariant (example_data\<lparr>policy_end_date := Some ''2020-01-01''\<rparr>)"
    by (simp add: ExtractedData_invariant_def date_field_ok_def example_data_def s b)
  have i4: "ExtractedData_invariant (example_data\<lparr>policy_end_date := Some ''2025-10-31''\<rparr>)"
    by (simp add: ExtractedData_invariant_def date_field_ok_def example_data_def s c)
  have i5: "ExtractedData_invariant (example_data\<lparr>policy_end_date := None\<rparr>)"
    by (simp add: ExtractedData_invariant_def date_field_ok_def example_data_def s)
  show ?thesis
    using date_consistency_rule [OF i1, of example_runtime]
      date_consistency_rule [OF i2, of example_runtime]
      date_consistency_rule [OF i3, of example_runtime]
      date_consistency_rule [OF i4, of example_runtime]
      date_consistency_rule [OF i5, of example_runtime]
      later earlier day_before
    by (simp add: example_data_def s e b c)
qed

text \<open>
  C10. On a record that satisfies the invariant of the model, both calls of
  \<open>strptime\<close> in the rule succeed when both dates are present, the \<open>try\<close> block of the
  rule returns without raising, and the result of the rule is the result of the block:
  its message does not begin with \<open>Invalid date format: \<close>.
\<close>

theorem date_parse_failure_unreachable:
  assumes "ExtractedData_invariant data"
  shows "(\<forall>s e. policy_start_date data = Some s \<and> policy_end_date data = Some e \<longrightarrow>
            (\<exists>start_date end_date.
               strptime rt s = Inr start_date \<and> strptime rt e = Inr end_date))
       \<and> (\<exists>r. validate_date_consistency_try rt data = Inr r
               \<and> validate_date_consistency rt data = Inr r
               \<and> \<not> prefix ''Invalid date format: '' (message r))"
proof
  show "\<forall>s e. policy_start_date data = Some s \<and> policy_end_date data = Some e \<longrightarrow>
            (\<exists>start_date end_date.
               strptime rt s = Inr start_date \<and> strptime rt e = Inr end_date)"
    using assms by (auto simp add: ExtractedData_invariant_def date_field_ok_Some)
next
  have "\<exists>r. validate_date_consistency_try rt data = Inr r
            \<and> \<not> prefix ''Invalid date format: '' (message r)"
  proof (cases "policy_start_date data")
    case None
    then show ?thesis by (simp add: validate_date_consistency_try_def)
  next
    case start: (Some s)
    show ?thesis
    proof (cases "policy_end_date data")
      case None
      with start show ?thesis by (simp add: validate_date_consistency_try_def)
    next
      case (Some e)
      with start assms obtain a b where "parse_date s = Inr a" "parse_date e = Inr b"
        by (auto simp add: ExtractedData_invariant_def date_field_ok_Some)
      with start Some show ?thesis
        by (simp add: validate_date_consistency_try_def strptime_def)
    qed
  qed
  then show "\<exists>r. validate_date_consistency_try rt data = Inr r
               \<and> validate_date_consistency rt data = Inr r
               \<and> \<not> prefix ''Invalid date format: '' (message r)"
    by (auto simp add: validate_date_consistency_def)
qed

theorem date_parse_failure_unreachable_witness:
  "ExtractedData_invariant example_data
   \<and> (\<exists>start_date end_date.
         strptime example_runtime ''2025-11-01'' = Inr start_date
         \<and> strptime example_runtime ''2026-10-31'' = Inr end_date)
   \<and> (\<exists>r. validate_date_consistency_try example_runtime example_data = Inr r
           \<and> validate_date_consistency example_runtime example_data = Inr r
           \<and> \<not> prefix ''Invalid date format: '' (message r))"
proof -
  have s: "parse_date ''2025-11-01'' = Inr \<lparr>year = 2025, month = 11, day = 1\<rparr>"
    by code_simp
  have e: "parse_date ''2026-10-31'' = Inr \<lparr>year = 2026, month = 10, day = 31\<rparr>"
    by code_simp
  have i: "ExtractedData_invariant example_data"
    by (simp add: ExtractedData_invariant_def date_field_ok_def example_data_def s e)
  have p: "policy_start_date example_data = Some ''2025-11-01''
           \<and> policy_end_date example_data = Some ''2026-10-31''"
    by (simp add: example_data_def)
  show ?thesis
    using date_parse_failure_unreachable [OF i, of example_runtime] i p by blast
qed

text \<open>
  The branch is there for a record that breaks the invariant: a start date with a
  month 13 takes it.
\<close>

lemma date_parse_failure_without_invariant:
  "validate_date_consistency example_runtime
     (example_data\<lparr>policy_start_date := Some ''2025-13-01''\<rparr>) =
     Inr \<lparr>rule = ''Date Consistency'', status = ''FAIL'',
          message = ''Invalid date format: error''\<rparr>"
  by code_simp

section \<open>The constructor of the data model\<close>

lemma str_field_Inr: "str_field j = Inr v \<Longrightarrow> v = str_value j"
  by (cases j rule: str_field.cases) auto

lemma str_field_malformed: "malformed_str j \<Longrightarrow> \<exists>e. str_field j = Inl e"
  by (cases j rule: str_field.cases) auto

lemma date_format_Inr:
  "ExtractedData_validate_date_format rt v = Inr w \<Longrightarrow> w = v \<and> date_field_ok v"
  by (auto simp add: ExtractedData_validate_date_format_def date_field_ok_def strptime_def
        split: option.splits sum.splits if_splits)

lemma date_format_Inl:
  "\<not> date_field_ok v \<Longrightarrow> \<exists>x. ExtractedData_validate_date_format rt v = Inl x"
  by (auto simp add: ExtractedData_validate_date_format_def date_field_ok_def strptime_def
        split: option.splits sum.splits)

lemma date_field_Inr:
  "field_validator (ExtractedData_validate_date_format rt) (str_field j) = Inr v \<Longrightarrow>
   v = str_value j \<and> date_field_ok v"
  by (auto simp add: field_validator_def split: sum.splits
        dest!: str_field_Inr date_format_Inr)

lemma date_field_malformed:
  assumes "malformed_date j"
  shows "\<exists>e. field_validator (ExtractedData_validate_date_format rt) (str_field j) = Inl e"
proof (cases "str_field j")
  case (Inl e)
  then show ?thesis by (simp add: field_validator_def)
next
  case (Inr v)
  with assms have "\<not> date_field_ok v"
    by (cases j rule: malformed_date.cases) auto
  then obtain x where "ExtractedData_validate_date_format rt v = Inl x"
    using date_format_Inl by blast
  with Inr show ?thesis by (simp add: field_validator_def)
qed

lemma float_field_Inr:
  "field_validator ExtractedData_validate_insured_value (float_field rt j) = Inr v \<Longrightarrow>
   v = (case j of None \<Rightarrow> None | Some JNull \<Rightarrow> None | Some w \<Rightarrow> to_float rt w)"
  by (cases "(rt, j)" rule: float_field.cases)
     (auto simp add: field_validator_def ExtractedData_validate_insured_value_def
        split: sum.splits option.splits)

lemma float_field_malformed:
  "malformed_float rt j \<Longrightarrow>
   \<exists>e. field_validator ExtractedData_validate_insured_value (float_field rt j) = Inl e"
  by (cases "(rt, j)" rule: float_field.cases) (auto simp add: field_validator_def)

lemma ExtractedData_init_Inr:
  assumes "ExtractedData_init rt (JDict kvs) = Inr data"
  shows "str_field (map_of kvs ''policy_number'') = Inr (policy_number data)"
    and "str_field (map_of kvs ''vessel_name'') = Inr (vessel_name data)"
    and "field_validator (ExtractedData_validate_date_format rt)
           (str_field (map_of kvs ''policy_start_date'')) = Inr (policy_start_date data)"
    and "field_validator (ExtractedData_validate_date_format rt)
           (str_field (map_of kvs ''policy_end_date'')) = Inr (policy_end_date data)"
    and "field_validator ExtractedData_validate_insured_value
           (float_field rt (map_of kvs ''insured_value'')) = Inr (insured_value data)"
  using assms
  by (auto simp add: ExtractedData_init_def Let_def split: sum.splits)

lemma ExtractedData_init_Inl:
  assumes "str_field (map_of kvs ''policy_number'') = Inl e
           \<or> str_field (map_of kvs ''vessel_name'') = Inl e
           \<or> field_validator (ExtractedData_validate_date_format rt)
                (str_field (map_of kvs ''policy_start_date'')) = Inl e
           \<or> field_validator (ExtractedData_validate_date_format rt)
                (str_field (map_of kvs ''policy_end_date'')) = Inl e
           \<or> field_validator ExtractedData_validate_insured_value
                (float_field rt (map_of kvs ''insured_value'')) = Inl e"
  shows "\<exists>x. ExtractedData_init rt (JDict kvs) = Inl x \<and> cls x = ValidationError"
  using assms
  by (auto simp add: ExtractedData_init_def Let_def split: sum.splits)

text \<open>
  C4. A record that the constructor returns satisfies the invariant (its dates, when
  present, parse with \<open>%Y-%m-%d\<close>; its insured value is a float by its type) and
  holds the fields of the parsed object as they were found. A parsed object with a field
  that is present but malformed gives no record at all: the constructor raises a
  \<open>ValidationError\<close>, which \<open>extract_fields\<close> raises again as a \<open>ValueError\<close>.
\<close>

theorem ExtractedData_init_fail_fast:
  "(\<forall>data. ExtractedData_init rt obj = Inr data \<longrightarrow>
      ExtractedData_invariant data
      \<and> (\<exists>kvs. obj = JDict kvs
            \<and> policy_number data = str_value (map_of kvs ''policy_number'')
            \<and> vessel_name data = str_value (map_of kvs ''vessel_name'')
            \<and> policy_start_date data = str_value (map_of kvs ''policy_start_date'')
            \<and> policy_end_date data = str_value (map_of kvs ''policy_end_date'')
            \<and> insured_value data =
                (case map_of kvs ''insured_value'' of
                   None \<Rightarrow> None | Some JNull \<Rightarrow> None | Some w \<Rightarrow> to_float rt w)))
   \<and> (\<forall>kvs. obj = JDict kvs
          \<and> (malformed_str (map_of kvs ''policy_number'')
             \<or> malformed_str (map_of kvs ''vessel_name'')
             \<or> malformed_date (map_of kvs ''policy_start_date'')
             \<or> malformed_date (map_of kvs ''policy_end_date'')
             \<or> malformed_float rt (map_of kvs ''insured_value'')) \<longrightarrow>
          (\<exists>x. ExtractedData_init rt obj = Inl x \<and> cls x = ValidationError))
   \<and> (\<forall>self document_text t x.
          generate_content self (build_prompt document_text) = Inr (Some \<lparr>response_text = Inr t\<rparr>)
          \<and> t \<noteq> [] \<and> json_loads rt t = Inr obj \<and> ExtractedData_init rt obj = Inl x \<longrightarrow>
          snd (extract_fields rt self document_text) =
            Inl (Exn ValueError (''Extracted data validation failed: '' @ msg x)))"
proof (intro conjI allI impI)
  fix data
  assume built: "ExtractedData_init rt obj = Inr data"
  then obtain kvs where obj: "obj = JDict kvs"
    by (cases obj) (simp_all add: ExtractedData_init_def)
  note fields = ExtractedData_init_Inr [OF built [unfolded obj]]
  have dates: "policy_start_date data = str_value (map_of kvs ''policy_start_date'')"
      "date_field_ok (policy_start_date data)"
      "policy_end_date data = str_value (map_of kvs ''policy_end_date'')"
      "date_field_ok (policy_end_date data)"
    using date_field_Inr [OF fields(3)] date_field_Inr [OF fields(4)] by blast+
  show "ExtractedData_invariant data"
    using dates by (simp add: ExtractedData_invariant_def)
  show "\<exists>kvs. obj = JDict kvs
            \<and> policy_number data = str_value (map_of kvs ''policy_number'')
            \<and> vessel_name data = str_value (map_of kvs ''vessel_name'')
            \<and> policy_start_date data = str_value (map_of kvs ''policy_start_date'')
            \<and> policy_end_date data = str_value (map_of kvs ''policy_end_date'')
            \<and> insured_value data =
                (case map_of kvs ''insured_value'' of
                   None \<Rightarrow> None | Some JNull \<Rightarrow> None | Some w \<Rightarrow> to_float rt w)"
    using obj dates str_field_Inr [OF fields(1)] str_field_Inr [OF fields(2)]
      float_field_Inr [OF fields(5)]
    by simp
next
  fix kvs
  assume bad: "obj = JDict kvs
          \<and> (malformed_str (map_of kvs ''policy_number'')
             \<or> malformed_str (map_of kvs ''vessel_name'')
             \<or> malformed_date (map_of kvs ''policy_start_date'')
             \<or> malformed_date (map_of kvs ''policy_end_date'')
             \<or> malformed_float rt (map_of kvs ''insured_value''))"
  then have "\<exists>e. str_field (map_of kvs ''policy_number'') = Inl e
           \<or> str_field (map_of kvs ''vessel_name'') = Inl e
           \<or> field_validator (ExtractedData_validate_date_format rt)
                (str_field (map_of kvs ''policy_start_date'')) = Inl e
           \<or> field_validator (ExtractedData_validate_date_format rt)
                (str_field (map_of kvs ''policy_end_date'')) = Inl e
           \<or> field_validator ExtractedData_validate_insured_value
                (float_field rt (map_of kvs ''insured_value'')) = Inl e"
    using str_field_malformed date_field_malformed float_field_malformed by blast
  then show "\<exists>x. ExtractedData_init rt obj = Inl x \<and> cls x = ValidationError"
    using bad ExtractedData_init_Inl by blast
next
  fix self :: AIExtractor and document_text t x
  assume "generate_content self (build_prompt document_text) = Inr (Some \<lparr>response_text = Inr t\<rparr>)
          \<and> t \<noteq> [] \<and> json_loads rt t = Inr obj \<and> ExtractedData_init rt obj = Inl x"
  then show "snd (extract_fields rt self document_text) =
            Inl (Exn ValueError (''Extracted data validation failed: '' @ msg x))"
    by (simp add: extract_fields_def extract_fields_try_def)
qed

theorem ExtractedData_init_fail_fast_witness:
  "ExtractedData_init example_runtime example_object = Inr example_data
   \<and> ExtractedData_invariant example_data
   \<and> malformed_date (map_of [(''policy_number'', JStr ''HM-1''),
                              (''policy_end_date'', JStr ''31/10/2026'')] ''policy_end_date'')
   \<and> (\<exists>x. ExtractedData_init example_runtime malformed_object = Inl x
           \<and> cls x = ValidationError)
   \<and> snd (extract_fields example_runtime (example_extractor malformed_text) ''a policy'') =
       Inl (Exn ValueError ''Extracted data validation failed: error'')"
proof -
  have built: "ExtractedData_init example_runtime example_object = Inr example_data"
    by code_simp
  have bad: "malformed_date (map_of [(''policy_number'', JStr ''HM-1''),
                              (''policy_end_date'', JStr ''31/10/2026'')] ''policy_end_date'')"
    by code_simp
  have refused: "ExtractedData_init example_runtime malformed_object =
                   Inl (Exn ValidationError ''error'')"
    by code_simp
  have loads: "json_loads example_runtime malformed_text = Inr malformed_object"
    by code_simp
  have nonempty: "malformed_text \<noteq> []"
    by (simp add: malformed_text_def)
  have answer: "generate_content (example_extractor malformed_text) (build_prompt ''a policy'') =
                  Inr (Some \<lparr>response_text = Inr malformed_text\<rparr>)"
    by (simp add: example_extractor_def)
  have "ExtractedData_invariant example_data"
    using ExtractedData_init_fail_fast [of example_runtime example_object] built by blast
  moreover have "\<exists>x. ExtractedData_init example_runtime malformed_object = Inl x
           \<and> cls x = ValidationError"
    using ExtractedData_init_fail_fast [of example_runtime malformed_object] bad
    by (simp add: malformed_object_def)
  moreover have "snd (extract_fields example_runtime (example_extractor malformed_text) ''a policy'') =
       Inl (Exn ValueError ''Extracted data validation failed: error'')"
    using ExtractedData_init_fail_fast [of example_runtime malformed_object]
      answer nonempty loads refused
    by fastforce
  ultimately show ?thesis
    using built bad by blast
qed

section \<open>The pipeline\<close>

lemma lifespan_initialised:
  "lifespan rt api_key configure vessels_file = Inr st \<Longrightarrow>
   ai_extractor st \<noteq> None \<and> validator st \<noteq> None"
  by (auto simp add: lifespan_def split: sum.splits)

lemma DocumentRequest_init_empty: "\<exists>x. DocumentRequest_init rt [] = Inl x"
  by (simp add: DocumentRequest_init_def)

lemma extract_fields_calls:
  "fst (extract_fields rt extractor t) = [GenerateContent (build_prompt t)]"
  by (simp add: extract_fields_def)

lemma extract_fields_raises_ValueError:
  "snd (extract_fields rt extractor t) = Inl x \<Longrightarrow> is_ValueError x"
  by (auto simp add: extract_fields_def split: sum.splits if_splits)

text \<open>
  C5. A request whose text is empty or holds only whitespace is rejected without any
  call to the extractor, to the model or to the validator, whatever the state of the
  application; once the application is initialised, as it is after \<open>lifespan\<close>, the
  rejection is the input error 400 \<open>Document text cannot be empty\<close>.
\<close>

theorem empty_input_rejected:
  assumes "\<forall>c \<in> set t. isspace c"
  shows "fst (validate_document rt st \<lparr>request_text = t\<rparr>) = []
       \<and> (\<exists>e. snd (validate_document rt st \<lparr>request_text = t\<rparr>) = Inl e)
       \<and> (ai_extractor st \<noteq> None \<and> validator st \<noteq> None \<longrightarrow>
            snd (validate_document rt st \<lparr>request_text = t\<rparr>) =
              Inl \<lparr>status_code = 400, detail = ''Document text cannot be empty''\<rparr>)"
proof -
  have "strip t = []"
    using assms by (simp add: strip_empty_iff)
  then show ?thesis
    by (auto simp add: validate_document_def split: option.splits)
qed

theorem empty_input_rejected_witness:
  "strip '''' = [] \<and> strip ''   '' = []
   \<and> validate_document example_runtime (example_app example_text) \<lparr>request_text = ''''\<rparr> =
       ([], Inl \<lparr>status_code = 400, detail = ''Document text cannot be empty''\<rparr>)
   \<and> validate_document example_runtime (example_app example_text) \<lparr>request_text = ''   ''\<rparr> =
       ([], Inl \<lparr>status_code = 400, detail = ''Document text cannot be empty''\<rparr>)"
proof -
  have a: "\<forall>c \<in> set ''''. isspace c" by simp
  have b: "\<forall>c \<in> set ''   ''. isspace c" by (simp add: char_eval)
  have i: "ai_extractor (example_app example_text) \<noteq> None
           \<and> validator (example_app example_text) \<noteq> None"
    by (simp add: example_app_def)
  show ?thesis
    using empty_input_rejected [OF a, of example_runtime "example_app example_text"]
      empty_input_rejected [OF b, of example_runtime "example_app example_text"] a b i
    by (simp add: prod_eq_iff strip_empty_iff)
qed

lemma extract_fields_empty_response:
  "generate_content extractor (build_prompt t) = Inr None
   \<or> generate_content extractor (build_prompt t) = Inr (Some \<lparr>response_text = Inr []\<rparr>) \<Longrightarrow>
   snd (extract_fields rt extractor t) =
     Inl (Exn ValueError ''Empty response received from Gemini AI'')"
  by (auto simp add: extract_fields_def extract_fields_try_def)

lemma extract_fields_invalid_json:
  "generate_content extractor (build_prompt t) = Inr (Some \<lparr>response_text = Inr answer\<rparr>) \<Longrightarrow>
   answer \<noteq> [] \<Longrightarrow> json_loads rt answer = Inl (Exn JSONDecodeError m) \<Longrightarrow>
   snd (extract_fields rt extractor t) =
     Inl (Exn ValueError (''Invalid JSON response from AI: '' @ m))"
  by (simp add: extract_fields_def extract_fields_try_def)

lemma extract_fields_validation_failed:
  "generate_content extractor (build_prompt t) = Inr (Some \<lparr>response_text = Inr answer\<rparr>) \<Longrightarrow>
   answer \<noteq> [] \<Longrightarrow> json_loads rt answer = Inr obj \<Longrightarrow> ExtractedData_init rt obj = Inl x \<Longrightarrow>
   snd (extract_fields rt extractor t) =
     Inl (Exn ValueError (''Extracted data validation failed: '' @ msg x))"
  by (simp add: extract_fields_def extract_fields_try_def)

lemma validate_length:
  "\<exists>results. validate rt v data = Inr results \<and> length results = 4"
proof -
  obtain r1 r2 r3 r4 where "validate_date_consistency rt data = Inr r1"
      "validate_insured_value rt data = Inr r2" "validate_vessel_name rt v data = Inr r3"
      "validate_completeness rt data = Inr r4"
    using date_consistency_total insured_value_total vessel_name_total completeness_total
    by blast
  then have "validate rt v data = Inr [r1, r2, r3, r4]"
    by (simp add: validate_def)
  then show ?thesis by simp
qed

text \<open>
  C3. In an initialised application and for a text that is not blank: when the
  extractor fails, its exception is a \<open>ValueError\<close>, the caller receives the single
  error 400 whose detail is the message of that exception, and the calls made are the
  extractor and the model only, never the validator. An empty answer of the model, an
  answer that is not JSON and a parsed object that the data model refuses are such
  failures, each with its own reason. When the extractor succeeds the caller receives the
  extracted record with the four results of the validator. In every case the caller
  receives one error or the whole response.
\<close>

theorem extraction_failure_stops_pipeline:
  assumes "ai_extractor st = Some extractor" and "validator st = Some v"
    and "strip t \<noteq> []"
  shows "(\<forall>x. snd (extract_fields rt extractor t) = Inl x \<longrightarrow>
            is_ValueError x
            \<and> validate_document rt st \<lparr>request_text = t\<rparr> =
                ([ExtractFields t, GenerateContent (build_prompt t)],
                 Inl \<lparr>status_code = 400, detail = msg x\<rparr>))
       \<and> (generate_content extractor (build_prompt t) = Inr None
           \<or> generate_content extractor (build_prompt t) = Inr (Some \<lparr>response_text = Inr []\<rparr>) \<longrightarrow>
            snd (extract_fields rt extractor t) =
              Inl (Exn ValueError ''Empty response received from Gemini AI''))
       \<and> (\<forall>answer m.
            generate_content extractor (build_prompt t) = Inr (Some \<lparr>response_text = Inr answer\<rparr>)
            \<and> answer \<noteq> [] \<and> json_loads rt answer = Inl (Exn JSONDecodeError m) \<longrightarrow>
            snd (extract_fields rt extractor t) =
              Inl (Exn ValueError (''Invalid JSON response from AI: '' @ m)))
       \<and> (\<forall>answer obj x.
            generate_content extractor (build_prompt t) = Inr (Some \<lparr>response_text = Inr answer\<rparr>)
            \<and> answer \<noteq> [] \<and> json_loads rt answer = Inr obj
            \<and> ExtractedData_init rt obj = Inl x \<longrightarrow>
            snd (extract_fields rt extractor t) =
              Inl (Exn ValueError (''Extracted data validation failed: '' @ msg x)))
       \<and> (\<forall>data. snd (extract_fields rt extractor t) = Inr data \<longrightarrow>
            (\<exists>results. validate rt v data = Inr results \<and> length results = 4
               \<and> validate_document rt st \<lparr>request_text = t\<rparr> =
                   ([ExtractFields t, GenerateContent (build_prompt t), Validate data],
                    Inr \<lparr>extracted_data = data, validation_results = results\<rparr>)))
       \<and> ((\<exists>e. snd (validate_document rt st \<lparr>request_text = t\<rparr>) = Inl e)
           \<or> (\<exists>data results.
                 snd (validate_document rt st \<lparr>request_text = t\<rparr>) =
                   Inr \<lparr>extracted_data = data, validation_results = results\<rparr>
                 \<and> snd (extract_fields rt extractor t) = Inr data
                 \<and> validate rt v data = Inr results \<and> length results = 4))"
proof -
  have nonblank: "t \<noteq> []"
    using assms(3) by auto
  have failure: "is_ValueError x
            \<and> validate_document rt st \<lparr>request_text = t\<rparr> =
                ([ExtractFields t, GenerateContent (build_prompt t)],
                 Inl \<lparr>status_code = 400, detail = msg x\<rparr>)"
    if "snd (extract_fields rt extractor t) = Inl x" for x
  proof -
    have v: "is_ValueError x"
      using that by (rule extract_fields_raises_ValueError)
    have "extract_fields rt extractor t = ([GenerateContent (build_prompt t)], Inl x)"
      using that extract_fields_calls [of rt extractor t] by (simp add: prod_eq_iff)
    then show ?thesis
      using assms nonblank v by (simp add: validate_document_def http_error_def)
  qed
  have success: "\<exists>results. validate rt v data = Inr results \<and> length results = 4
               \<and> validate_document rt st \<lparr>request_text = t\<rparr> =
                   ([ExtractFields t, GenerateContent (build_prompt t), Validate data],
                    Inr \<lparr>extracted_data = data, validation_results = results\<rparr>)"
    if "snd (extract_fields rt extractor t) = Inr data" for data
  proof -
    obtain results where r: "validate rt v data = Inr results" "length results = 4"
      using validate_length by blast
    have "extract_fields rt extractor t = ([GenerateContent (build_prompt t)], Inr data)"
      using that extract_fields_calls [of rt extractor t] by (simp add: prod_eq_iff)
    then show ?thesis
      using assms nonblank r by (simp add: validate_document_def)
  qed
  have either: "(\<exists>e. snd (validate_document rt st \<lparr>request_text = t\<rparr>) = Inl e)
           \<or> (\<exists>data results.
                 snd (validate_document rt st \<lparr>request_text = t\<rparr>) =
                   Inr \<lparr>extracted_data = data, validation_results = results\<rparr>
                 \<and> snd (extract_fields rt extractor t) = Inr data
                 \<and> validate rt v data = Inr results \<and> length results = 4)"
  proof (cases "snd (extract_fields rt extractor t)")
    case (Inl x)
    then show ?thesis using failure [of x] by simp
  next
    case (Inr data)
    then show ?thesis using success [of data] by fastforce
  qed
  show ?thesis
    using failure success either extract_fields_empty_response [of extractor t rt]
      extract_fields_invalid_json [of extractor t _ rt]
      extract_fields_validation_failed [of extractor t _ rt]
    by (intro conjI allI impI) blast+
qed

theorem extraction_failure_stops_pipeline_witness:
  "strip ''a policy'' \<noteq> []
   \<and> validate_document example_runtime (example_app malformed_text)
         \<lparr>request_text = ''a policy''\<rparr> =
       ([ExtractFields ''a policy'', GenerateContent (build_prompt ''a policy'')],
        Inl \<lparr>status_code = 400, detail = ''Extracted data validation failed: error''\<rparr>)
   \<and> validate_document example_runtime (example_app ''not json'')
         \<lparr>request_text = ''a policy''\<rparr> =
       ([ExtractFields ''a policy'', GenerateContent (build_prompt ''a policy'')],
        Inl \<lparr>status_code = 400, detail = ''Invalid JSON response from AI: Expecting value''\<rparr>)
   \<and> validate_document example_runtime (example_app [])
         \<lparr>request_text = ''a policy''\<rparr> =
       ([ExtractFields ''a policy'', GenerateContent (build_prompt ''a policy'')],
        Inl \<lparr>status_code = 400, detail = ''Empty response received from Gemini AI''\<rparr>)
   \<and> (\<exists>results. length results = 4
         \<and> validate_document example_runtime (example_app example_text)
               \<lparr>request_text = ''a policy''\<rparr> =
             ([ExtractFields ''a policy'', GenerateContent (build_prompt ''a policy''),
               Validate example_data],
              Inr \<lparr>extracted_data = example_data, validation_results = results\<rparr>))"
proof -
  have text_ok: "strip ''a policy'' \<noteq> []"
    by code_simp
  have app: "ai_extractor (example_app answer) = Some (example_extractor answer)"
      "validator (example_app answer) = Some example_validator" for answer
    by (simp_all add: example_app_def)
  have refused: "snd (extract_fields example_runtime (example_extractor malformed_text) ''a policy'')
                 = Inl (Exn ValueError ''Extracted data validation failed: error'')"
    by code_simp
  have not_json: "snd (extract_fields example_runtime (example_extractor ''not json'') ''a policy'')
                  = Inl (Exn ValueError ''Invalid JSON response from AI: Expecting value'')"
    by code_simp
  have empty: "snd (extract_fields example_runtime (example_extractor []) ''a policy'')
               = Inl (Exn ValueError ''Empty response received from Gemini AI'')"
    by code_simp
  have extracted: "snd (extract_fields example_runtime (example_extractor example_text) ''a policy'')
                   = Inr example_data"
    by code_simp
  have 1: "validate_document example_runtime (example_app malformed_text)
         \<lparr>request_text = ''a policy''\<rparr> =
       ([ExtractFields ''a policy'', GenerateContent (build_prompt ''a policy'')],
        Inl \<lparr>status_code = 400, detail = ''Extracted data validation failed: error''\<rparr>)"
    using extraction_failure_stops_pipeline
        [OF app(1) [of malformed_text] app(2) [of malformed_text] text_ok, of example_runtime]
      refused
    by simp
  have 2: "validate_document example_runtime (example_app ''not json'')
         \<lparr>request_text = ''a policy''\<rparr> =
       ([ExtractFields ''a policy'', GenerateContent (build_prompt ''a policy'')],
        Inl \<lparr>status_code = 400, detail = ''Invalid JSON response from AI: Expecting value''\<rparr>)"
    using extraction_failure_stops_pipeline
        [OF app(1) [of "''not json''"] app(2) [of "''not json''"] text_ok, of example_runtime]
      not_json
    by simp
  have 3: "validate_document example_runtime (example_app [])
         \<lparr>request_text = ''a policy''\<rparr> =
       ([ExtractFields ''a policy'', GenerateContent (build_prompt ''a policy'')],
        Inl \<lparr>status_code = 400, detail = ''Empty response received from Gemini AI''\<rparr>)"
    using extraction_failure_stops_pipeline
        [OF app(1) [of "[]"] app(2) [of "[]"] text_ok, of example_runtime]
      empty
    by simp
  have 4: "\<exists>results. length results = 4
         \<and> validate_document example_runtime (example_app example_text)
               \<lparr>request_text = ''a policy''\<rparr> =
             ([ExtractFields ''a policy'', GenerateContent (build_prompt ''a policy''),
               Validate example_data],
              Inr \<lparr>extracted_data = example_data, validation_results = results\<rparr>)"
    using extraction_failure_stops_pipeline
        [OF app(1) [of example_text] app(2) [of example_text] text_ok, of example_runtime]
      extracted
    by auto
  show ?thesis
    using text_ok 1 2 3 4 by blast
qed

section \<open>Writing a record as JSON and reading it back\<close>

lemma str_field_str_json [simp]: "str_field (Some (str_json v)) = Inr v"
  by (cases v) simp_all

lemma date_format_ok:
  "date_field_ok v \<Longrightarrow> ExtractedData_validate_date_format rt v = Inr v"
  by (auto simp add: ExtractedData_validate_date_format_def date_field_ok_def strptime_def
        split: option.splits sum.splits)

lemma ExtractedData_init_invariant:
  assumes "ExtractedData_init rt obj = Inr data"
  shows "ExtractedData_invariant data"
proof -
  obtain kvs where obj: "obj = JDict kvs"
    using assms by (cases obj) (simp_all add: ExtractedData_init_def)
  note fields = ExtractedData_init_Inr [OF assms [unfolded obj]]
  show ?thesis
    unfolding ExtractedData_invariant_def
    using date_field_Inr [OF fields(3)] date_field_Inr [OF fields(4)] by blast
qed

lemma float_field_float_json:
  assumes "\<forall>f. to_float rt (JFloat f) = Some f"
  shows "field_validator ExtractedData_validate_insured_value
           (float_field rt (Some (float_json v))) =
         Inr (case v of None \<Rightarrow> None | Some f \<Rightarrow> if is_finite f then Some f else None)"
  using assms
  by (cases v)
     (simp_all add: field_validator_def ExtractedData_validate_insured_value_def)

lemma init_model_dump_json:
  assumes "ExtractedData_invariant data" and "\<forall>f. to_float rt (JFloat f) = Some f"
  shows "ExtractedData_init rt (model_dump_json data) =
           Inr (data\<lparr>insured_value :=
                  (case insured_value data of
                     None \<Rightarrow> None | Some f \<Rightarrow> if is_finite f then Some f else None)\<rparr>)"
proof -
  have dates: "ExtractedData_validate_date_format rt (policy_start_date data)
                 = Inr (policy_start_date data)"
      "ExtractedData_validate_date_format rt (policy_end_date data)
                 = Inr (policy_end_date data)"
    using assms(1) by (simp_all add: ExtractedData_invariant_def date_format_ok)
  show ?thesis
    by (simp add: ExtractedData_init_def model_dump_json_def Let_def field_validator_def dates
          float_field_float_json [OF assms(2), unfolded field_validator_def])
qed

text \<open>
  C9, as the code has it. A record made by the constructor whose insured value is absent
  or a finite number is read back from its JSON form as the same record, field for field.
  A record whose insured value is an infinity or NaN is read back with that field absent.
  Pydantic's conversion is taken to accept a float as it is.
\<close>

theorem round_trip_finite:
  assumes "ExtractedData_init rt obj = Inr data"
    and "\<forall>f. to_float rt (JFloat f) = Some f"
  shows "(insured_value data = None \<or> (\<exists>f. insured_value data = Some f \<and> is_finite f) \<longrightarrow>
            ExtractedData_init rt (model_dump_json data) = Inr data)
       \<and> ((\<exists>f. insured_value data = Some f \<and> \<not> is_finite f) \<longrightarrow>
            ExtractedData_init rt (model_dump_json data) = Inr (data\<lparr>insured_value := None\<rparr>)
            \<and> data\<lparr>insured_value := None\<rparr> \<noteq> data)"
proof -
  have inv: "ExtractedData_invariant data"
    using assms(1) by (rule ExtractedData_init_invariant)
  note reread = init_model_dump_json [OF inv assms(2)]
  show ?thesis
  proof (intro conjI impI)
    assume "insured_value data = None \<or> (\<exists>f. insured_value data = Some f \<and> is_finite f)"
    then show "ExtractedData_init rt (model_dump_json data) = Inr data"
      using reread by auto
  next
    assume "\<exists>f. insured_value data = Some f \<and> \<not> is_finite f"
    then show "ExtractedData_init rt (model_dump_json data) = Inr (data\<lparr>insured_value := None\<rparr>)"
      using reread by auto
  next
    assume "\<exists>f. insured_value data = Some f \<and> \<not> is_finite f"
    then obtain f where "insured_value data = Some f" by blast
    then have "insured_value (data\<lparr>insured_value := None\<rparr>) \<noteq> insured_value data"
      by simp
    then show "data\<lparr>insured_value := None\<rparr> \<noteq> data"
      by metis
  qed
qed

theorem round_trip_finite_witness:
  "ExtractedData_init example_runtime example_object = Inr example_data
   \<and> ExtractedData_init example_runtime (model_dump_json example_data) = Inr example_data
   \<and> ExtractedData_init example_runtime overflow_object = Inr overflow_data
   \<and> ExtractedData_init example_runtime (model_dump_json overflow_data) =
       Inr (overflow_data\<lparr>insured_value := None\<rparr>)"
proof -
  have built: "ExtractedData_init example_runtime example_object = Inr example_data"
    by code_simp
  have built_inf: "ExtractedData_init example_runtime overflow_object = Inr overflow_data"
    by code_simp
  have floats: "\<forall>f. to_float example_runtime (JFloat f) = Some f"
    by (simp add: example_runtime_def)
  have is_number: "insured_value example_data = None
                \<or> (\<exists>f. insured_value example_data = Some f \<and> is_finite f)"
    by (simp add: example_data_def)
  have no_number: "\<exists>f. insured_value overflow_data = Some f \<and> \<not> is_finite f"
    by (simp add: overflow_data_def)
  show ?thesis
    using round_trip_finite [OF built floats] round_trip_finite [OF built_inf floats]
      built built_inf is_number no_number
    by blast
qed

text \<open>
  C9, as the specification states it, fails for an insured value too large for a double.
  The text \<open>{"insured_value": 1e999}\<close> is valid JSON, \<open>json.loads\<close> reads the number as
  \<open>inf\<close>, and the constructor accepts it; written back, the value is \<open>null\<close>, and the
  record read from that has no insured value.
\<close>

theorem round_trip_counterexample:
  "json_loads example_runtime overflow_text = Inr overflow_object
   \<and> ExtractedData_init example_runtime overflow_object = Inr overflow_data
   \<and> insured_value overflow_data = Some PosInf
   \<and> model_dump_json overflow_data =
       JDict [(''policy_number'', JNull), (''vessel_name'', JNull),
              (''policy_start_date'', JNull), (''policy_end_date'', JNull),
              (''insured_value'', JNull)]
   \<and> ExtractedData_init example_runtime (model_dump_json overflow_data) =
       Inr (overflow_data\<lparr>insured_value := None\<rparr>)
   \<and> insured_value (overflow_data\<lparr>insured_value := None\<rparr>) = None
   \<and> overflow_data\<lparr>insured_value := None\<rparr> \<noteq> overflow_data"
proof -
  have 1: "json_loads example_runtime overflow_text = Inr overflow_object"
    by code_simp
  have 2: "ExtractedData_init example_runtime overflow_object = Inr overflow_data"
    by code_simp
  have 3: "model_dump_json overflow_data =
       JDict [(''policy_number'', JNull), (''vessel_name'', JNull),
              (''policy_start_date'', JNull), (''policy_end_date'', JNull),
              (''insured_value'', JNull)]"
    by (simp add: model_dump_json_def overflow_data_def)
  have 4: "ExtractedData_init example_runtime (model_dump_json overflow_data) =
       Inr (overflow_data\<lparr>insured_value := None\<rparr>)"
    by code_simp
  have 5: "overflow_data\<lparr>insured_value := None\<rparr> \<noteq> overflow_data"
    by (simp add: overflow_data_def)
  show ?thesis
    using 1 2 3 4 5 by (simp add: overflow_data_def)
qed

end
